theory Spec2Isabelle
  imports Complex_Main "HOL-Library.Word" "HOL-Library.Multiset"
begin

section \<open>Instrument audio synthesis: a model of \<^verbatim>\<open>src/tools/audio_renderer.py\<close>\<close>

text \<open>
  The renderer computes with Python floats and numpy arrays of floats. They are modelled
  as \<^typ>\<open>real\<close>: rounding error, infinities and NaN are outside the model. Python
  integers are \<^typ>\<open>int\<close>, frame counts that come out of \<^verbatim>\<open>range\<close> are
  \<^typ>\<open>nat\<close>, dictionaries with fixed keys are records, and every exception the source
  can raise is a value of \<open>py_error\<close>.
\<close>

datatype py_error =
    IndexError | ValueError | ZeroDivisionError | ImportError | OSError | TypeError | NameError

subsection \<open>Numbers\<close>

text \<open>\<^verbatim>\<open>int(x)\<close> on a float truncates towards zero.\<close>

definition py_int :: "real \<Rightarrow> int" where
  "py_int x = (if 0 \<le> x then \<lfloor>x\<rfloor> else \<lceil>x\<rceil>)"

text \<open>\<^verbatim>\<open>sample_rate = 44100\<close> in every synthesis routine.\<close>

definition sample_rate :: int where
  "sample_rate = 44100"

subsection \<open>The timbre table: \<^verbatim>\<open>_get_instrument_parameters\<close>\<close>

record harmonic =
  frequency_multiplier :: real
  amplitude :: real

record params =
  fundamental_amplitude :: real
  harmonics :: "harmonic list"
  inharmonicity :: real
  noise_level :: real
  attack_time :: real
  decay_time :: real
  sustain_level :: real
  release_time :: real
  filter_cutoff :: real
  overall_amplitude :: real

definition hm :: "real \<Rightarrow> real \<Rightarrow> harmonic" where
  "hm m a = \<lparr>frequency_multiplier = m, amplitude = a\<rparr>"

definition default_params :: params where
  "default_params = \<lparr>
     fundamental_amplitude = 0.4,
     harmonics = [hm 2 0.2, hm 3 0.1, hm 4 0.05, hm 5 0.03],
     inharmonicity = 1.001,
     noise_level = 0.005,
     attack_time = 0.02,
     decay_time = 0.08,
     sustain_level = 0.7,
     release_time = 0.3,
     filter_cutoff = 8000,
     overall_amplitude = 0.3\<rparr>"

definition piano_params :: params where
  "piano_params = default_params\<lparr>
     fundamental_amplitude := 0.5,
     harmonics := [hm 2 0.25, hm 3 0.15, hm 4 0.08, hm 5 0.04],
     overall_amplitude := 0.4\<rparr>"

definition violin_params :: params where
  "violin_params = \<lparr>
     fundamental_amplitude = 0.6,
     harmonics = [hm 2 0.3, hm 3 0.2, hm 4 0.1, hm 5 0.05],
     inharmonicity = 1.0005,
     noise_level = 0.003,
     attack_time = 0.01,
     decay_time = 0.05,
     sustain_level = 0.8,
     release_time = 0.4,
     filter_cutoff = 12000,
     overall_amplitude = 0.35\<rparr>"

definition guitar_params :: params where
  "guitar_params = \<lparr>
     fundamental_amplitude = 0.5,
     harmonics = [hm 2 0.3, hm 3 0.2, hm 4 0.1, hm 5 0.05],
     inharmonicity = 1.002,
     noise_level = 0.008,
     attack_time = 0.03,
     decay_time = 0.1,
     sustain_level = 0.6,
     release_time = 0.5,
     filter_cutoff = 6000,
     overall_amplitude = 0.3\<rparr>"

definition flute_params :: params where
  "flute_params = \<lparr>
     fundamental_amplitude = 0.7,
     harmonics = [hm 2 0.4, hm 3 0.2, hm 4 0.1],
     inharmonicity = 1.0001,
     noise_level = 0.002,
     attack_time = 0.05,
     decay_time = 0.1,
     sustain_level = 0.9,
     release_time = 0.6,
     filter_cutoff = 15000,
     overall_amplitude = 0.25\<rparr>"

definition clarinet_params :: params where
  "clarinet_params = \<lparr>
     fundamental_amplitude = 0.6,
     harmonics = [hm 2 0.3, hm 3 0.4, hm 4 0.2, hm 5 0.1],
     inharmonicity = 1.0003,
     noise_level = 0.004,
     attack_time = 0.02,
     decay_time = 0.08,
     sustain_level = 0.8,
     release_time = 0.3,
     filter_cutoff = 10000,
     overall_amplitude = 0.3\<rparr>"

definition trumpet_params :: params where
  "trumpet_params = \<lparr>
     fundamental_amplitude = 0.5,
     harmonics = [hm 2 0.4, hm 3 0.3, hm 4 0.2, hm 5 0.1],
     inharmonicity = 1.0002,
     noise_level = 0.006,
     attack_time = 0.01,
     decay_time = 0.05,
     sustain_level = 0.9,
     release_time = 0.2,
     filter_cutoff = 12000,
     overall_amplitude = 0.4\<rparr>"

definition voice_params :: params where
  "voice_params = \<lparr>
     fundamental_amplitude = 0.6,
     harmonics = [hm 2 0.3, hm 3 0.2, hm 4 0.1, hm 5 0.05],
     inharmonicity = 1.0005,
     noise_level = 0.01,
     attack_time = 0.03,
     decay_time = 0.1,
     sustain_level = 0.7,
     release_time = 0.4,
     filter_cutoff = 8000,
     overall_amplitude = 0.3\<rparr>"

text \<open>The dictionary \<^verbatim>\<open>instrument_params\<close>, in the order it is written.\<close>

definition instrument_params :: "(string \<times> params) list" where
  "instrument_params =
     [(''Music Theory'', default_params),
      (''Piano'', piano_params),
      (''Violin'', violin_params),
      (''Guitar'', guitar_params),
      (''Flute'', flute_params),
      (''Clarinet'', clarinet_params),
      (''Trumpet'', trumpet_params),
      (''Voice'', voice_params)]"

text \<open>\<^verbatim>\<open>instrument_params.get(instrument, default_params)\<close>\<close>

definition get_instrument_parameters :: "string \<Rightarrow> params" where
  "get_instrument_parameters instrument =
     (case map_of instrument_params instrument of
        Some p \<Rightarrow> p
      | None \<Rightarrow> default_params)"

subsection \<open>Conversion to 16-bit PCM\<close>

text \<open>\<^verbatim>\<open>np.clip(x, lo, hi)\<close> on one sample.\<close>

definition np_clip :: "real \<Rightarrow> real \<Rightarrow> real \<Rightarrow> real" where
  "np_clip x lo hi = min (max x lo) hi"

text \<open>
  \<^verbatim>\<open>.astype(np.int16)\<close> on one sample: the fraction is dropped, and a value that does
  not fit into 16 bits keeps its low 16 bits, read as two's complement.
\<close>

definition astype_int16 :: "real \<Rightarrow> 16 word" where
  "astype_int16 x = word_of_int (py_int x)"

text \<open>
  The last two statements before the file is written, the same in
  \<^verbatim>\<open>_convert_midi_to_wav_direct\<close>, \<^verbatim>\<open>_create_musical_wav_from_notes\<close> and
  \<^verbatim>\<open>_create_simple_wav\<close>:
  \<^verbatim>\<open>audio_data = audio_data * 16384\<close>,
  \<^verbatim>\<open>audio_data = np.clip(audio_data, -32767, 32767).astype(np.int16)\<close>.
\<close>

definition to_pcm16 :: "real list \<Rightarrow> 16 word list" where
  "to_pcm16 audio_data =
     map (\<lambda>x. astype_int16 (np_clip x (- 32767) 32767)) (map (\<lambda>x. x * 16384) audio_data)"


subsection \<open>The note timeline of a MIDI file: \<^verbatim>\<open>_extract_midi_notes\<close>\<close>

text \<open>
  A message of a MIDI track as \<^verbatim>\<open>mido\<close> presents it: its type, and \<^verbatim>\<open>msg.time\<close>,
  the delta time in ticks. Ticks, note numbers, velocities and channels are unsigned in
  the file format.
\<close>

datatype midi_msg =
    Note_on nat nat nat nat       \<comment> \<open>time, channel, note, velocity\<close>
  | Note_off nat nat nat nat      \<comment> \<open>time, channel, note, velocity\<close>
  | Set_tempo nat nat             \<comment> \<open>time, tempo in microseconds per beat\<close>
  | Other_msg nat                 \<comment> \<open>time; any other message type\<close>

fun msg_time :: "midi_msg \<Rightarrow> nat" where
  "msg_time (Note_on t c n v) = t"
| "msg_time (Note_off t c n v) = t"
| "msg_time (Set_tempo t us) = t"
| "msg_time (Other_msg t) = t"

record midi_file =
  ticks_per_beat :: nat
  tracks :: "midi_msg list list"

text \<open>The dictionary \<^verbatim>\<open>note_data\<close>; \<open>note_no\<close> is its key \<^verbatim>\<open>'note'\<close>.\<close>

record note_data =
  note_no :: nat
  velocity :: nat
  start_time :: real
  duration :: real
  channel :: nat

text \<open>
  The loop over the messages of one track. \<^verbatim>\<open>tempo\<close> (here \<open>tempo_bpm\<close>) and \<^verbatim>\<open>notes\<close> live across
  tracks, \<^verbatim>\<open>track_time\<close> and \<^verbatim>\<open>active_notes\<close> are fresh for each track. The
  dictionary stored in \<^verbatim>\<open>active_notes\<close> is the very object appended to \<^verbatim>\<open>notes\<close>,
  so \<open>active_notes\<close> maps a note number to the position of that object in
  \<open>note_list\<close> (the list \<^verbatim>\<open>notes\<close>), and
  the assignment to \<^verbatim>\<open>note_data['duration']\<close> updates the list element.
\<close>

record extract_state =
  tempo_bpm :: real
  track_time :: real
  note_list :: "note_data list"
  active_notes :: "nat \<rightharpoonup> nat"

text \<open>\<^verbatim>\<open>mido.tempo2bpm\<close>: microseconds per beat to beats per minute.\<close>

definition tempo2bpm :: "nat \<Rightarrow> py_error + real" where
  "tempo2bpm us = (if us = 0 then Inl ZeroDivisionError else Inr (60000000 / real us))"

text \<open>The note-off branch: \<^verbatim>\<open>if msg.note in active_notes: ...\<close>\<close>

definition close_note :: "nat \<Rightarrow> extract_state \<Rightarrow> extract_state" where
  "close_note n s =
     (case active_notes s n of
        None \<Rightarrow> s
      | Some idx \<Rightarrow>
          let d = track_time s - start_time (note_list s ! idx);
              d' = (if d < 0.1 then 0.5 else d)
          in s\<lparr>note_list := (note_list s)[idx := (note_list s ! idx)\<lparr>duration := d'\<rparr>],
               active_notes := (active_notes s)(n := None)\<rparr>)"

text \<open>The note-on branch: a new dictionary, appended and remembered as active.\<close>

definition open_note :: "nat \<Rightarrow> nat \<Rightarrow> nat \<Rightarrow> extract_state \<Rightarrow> extract_state" where
  "open_note c n v s =
     s\<lparr>note_list := note_list s @
          [\<lparr>note_no = n, velocity = v, start_time = track_time s, duration = 0.5, channel = c\<rparr>],
       active_notes := (active_notes s)(n \<mapsto> length (note_list s))\<rparr>"

text \<open>One iteration of \<^verbatim>\<open>for msg in track\<close>.\<close>

definition process_msg :: "nat \<Rightarrow> midi_msg \<Rightarrow> extract_state \<Rightarrow> py_error + extract_state" where
  "process_msg tpb msg s =
     (if tpb = 0 \<or> tempo_bpm s = 0 then Inl ZeroDivisionError
      else
        let delta_time = real (msg_time msg) / real tpb * (60 / tempo_bpm s);
            s1 = s\<lparr>track_time := track_time s + delta_time\<rparr>
        in case msg of
             Set_tempo t us \<Rightarrow>
               (case tempo2bpm us of
                  Inl e \<Rightarrow> Inl e
                | Inr bpm \<Rightarrow> Inr (s1\<lparr>tempo_bpm := bpm\<rparr>))
           | Note_on t c n v \<Rightarrow>
               Inr (if v > 0 then open_note c n v s1 else close_note n s1)
           | Note_off t c n v \<Rightarrow> Inr (close_note n s1)
           | Other_msg t \<Rightarrow> Inr s1)"

fun track_loop :: "nat \<Rightarrow> midi_msg list \<Rightarrow> extract_state \<Rightarrow> py_error + extract_state" where
  "track_loop tpb [] s = Inr s"
| "track_loop tpb (msg # msgs) s =
     (case process_msg tpb msg s of
        Inl e \<Rightarrow> Inl e
      | Inr s' \<Rightarrow> track_loop tpb msgs s')"

text \<open>\<^verbatim>\<open>for track in mid.tracks\<close>: the clock and the active notes start afresh.\<close>

fun tracks_loop :: "nat \<Rightarrow> midi_msg list list \<Rightarrow> extract_state \<Rightarrow> py_error + extract_state" where
  "tracks_loop tpb [] s = Inr s"
| "tracks_loop tpb (track # rest) s =
     (case track_loop tpb track (s\<lparr>track_time := 0, active_notes := Map.empty\<rparr>) of
        Inl e \<Rightarrow> Inl e
      | Inr s' \<Rightarrow> tracks_loop tpb rest s')"

definition test_note :: note_data where
  "test_note = \<lparr>note_no = 60, velocity = 100, start_time = 0, duration = 1, channel = 0\<rparr>"

definition initial_state :: extract_state where
  "initial_state = \<lparr>tempo_bpm = 120, track_time = 0, note_list = [], active_notes = Map.empty\<rparr>"

text \<open>
  The whole function. Its argument is what \<^verbatim>\<open>import mido\<close> and \<^verbatim>\<open>mido.MidiFile(midi_path)\<close>
  give: the parsed file, or the exception they raise. Both \<^verbatim>\<open>except\<close> clauses return
  the empty list.
\<close>

definition extract_midi_notes :: "py_error + midi_file \<Rightarrow> note_data list" where
  "extract_midi_notes src =
     (case src of
        Inl e \<Rightarrow> []
      | Inr mid \<Rightarrow>
          (case tracks_loop (ticks_per_beat mid) (tracks mid) initial_state of
             Inl e \<Rightarrow> []
           | Inr s \<Rightarrow> if note_list s = [] then [test_note] else note_list s))"


subsection \<open>numpy arrays and the random generator\<close>

text \<open>\<^verbatim>\<open>np.zeros(n)\<close> refuses a negative length.\<close>

definition np_zeros :: "int \<Rightarrow> py_error + real list" where
  "np_zeros n = (if n < 0 then Inl ValueError else Inr (replicate (nat n) 0))"

text \<open>
  Indexing a one-dimensional array with a Python integer: a negative index counts from
  the end, and an index outside \<open>[-n, n)\<close> raises.
\<close>

definition np_index :: "real list \<Rightarrow> int \<Rightarrow> py_error + nat" where
  "np_index a idx =
     (let n = int (length a); j = (if idx < 0 then n + idx else idx)
      in if 0 \<le> j \<and> j < n then Inr (nat j) else Inl IndexError)"

text \<open>\<^verbatim>\<open>a[idx] += v\<close>\<close>

definition np_add_at :: "real list \<Rightarrow> int \<Rightarrow> real \<Rightarrow> py_error + real list" where
  "np_add_at a idx v =
     (case np_index a idx of Inl e \<Rightarrow> Inl e | Inr j \<Rightarrow> Inr (a[j := a ! j + v]))"

text \<open>\<^verbatim>\<open>a[idx] = v\<close>\<close>

definition np_set_at :: "real list \<Rightarrow> int \<Rightarrow> real \<Rightarrow> py_error + real list" where
  "np_set_at a idx v =
     (case np_index a idx of Inl e \<Rightarrow> Inl e | Inr j \<Rightarrow> Inr (a[j := v]))"

text \<open>
  The global generator of \<^verbatim>\<open>np.random\<close> is never seeded by the renderer. Its state is
  the sequence of standard normal deviates it is going to produce; a draw takes the first
  and leaves the rest. \<^verbatim>\<open>np.random.normal(loc, scale)\<close> refuses a negative scale.
\<close>

type_synonym rng = "nat \<Rightarrow> real"

definition np_random_normal :: "real \<Rightarrow> real \<Rightarrow> rng \<Rightarrow> py_error + real \<times> rng" where
  "np_random_normal loc scale g =
     (if scale < 0 then Inl ValueError else Inr (loc + scale * g 0, \<lambda>k. g (Suc k)))"

text \<open>\<^verbatim>\<open>range(n)\<close>\<close>

definition py_range :: "int \<Rightarrow> int list" where
  "py_range n = map int [0..<nat n]"

text \<open>\<^verbatim>\<open>a / b\<close> on two Python integers.\<close>

definition py_truediv :: "int \<Rightarrow> int \<Rightarrow> py_error + real" where
  "py_truediv a b = (if b = 0 then Inl ZeroDivisionError else Inr (real_of_int a / real_of_int b))"

text \<open>\<^verbatim>\<open>max\<close> of a sequence.\<close>

definition py_max :: "real list \<Rightarrow> py_error + real" where
  "py_max xs = (case xs of [] \<Rightarrow> Inl ValueError | x # xs' \<Rightarrow> Inr (fold max xs' x))"

subsection \<open>The envelope\<close>

text \<open>
  The envelope of frame \<open>i\<close> of a note of \<open>duration_frames\<close> frames, as both synthesis
  loops compute it (the staff path calls the frame count \<^verbatim>\<open>note_frames\<close>).
\<close>

definition envelope :: "params \<Rightarrow> int \<Rightarrow> int \<Rightarrow> py_error + real" where
  "envelope p duration_frames i =
     (let attack = py_int (real_of_int duration_frames * attack_time p);
          decay = py_int (real_of_int duration_frames * decay_time p);
          sustain = sustain_level p;
          release = py_int (real_of_int duration_frames * release_time p)
      in if i < attack then py_truediv i attack
         else if i < attack + decay then
           (case py_truediv (i - attack) decay of
              Inl e \<Rightarrow> Inl e
            | Inr decay_progress \<Rightarrow> Inr (1 - decay_progress * (1 - sustain)))
         else if i < duration_frames - release then Inr sustain
         else
           (case py_truediv (i - (duration_frames - release)) release of
              Inl e \<Rightarrow> Inl e
            | Inr release_progress \<Rightarrow> Inr (sustain * (1 - release_progress))))"

subsection \<open>Synthesis from the MIDI notes: \<^verbatim>\<open>_convert_midi_to_wav_direct\<close>\<close>

definition midi_to_freq :: "real \<Rightarrow> real" where
  "midi_to_freq midi_note = 440 * 2 powr ((midi_note - 69) / 12)"

text \<open>The tone of one frame, before the envelope, with the noise already drawn.\<close>

definition midi_tone :: "params \<Rightarrow> real \<Rightarrow> real \<Rightarrow> real \<Rightarrow> real \<Rightarrow> real" where
  "midi_tone p freq vel t noise =
     (let fundamental = sin (2 * pi * freq * t);
          tone = 0 + fundamental * fundamental_amplitude p * vel;
          tone = fold (\<lambda>h tone.
                   tone + sin (2 * pi * freq * frequency_multiplier h * t) * amplitude h * vel)
                   (harmonics p) tone;
          tone = tone + sin (2 * pi * freq * 2 * t * inharmonicity p) * 0.05 * vel
      in tone + noise)"

text \<open>
  \<^verbatim>\<open>for i in range(duration_frames)\<close> with its \<^verbatim>\<open>break\<close>; the state is the array and
  the generator.
\<close>

fun midi_frame_loop ::
  "params \<Rightarrow> real \<Rightarrow> real \<Rightarrow> int \<Rightarrow> int \<Rightarrow> int \<Rightarrow> int list \<Rightarrow> real list \<times> rng
     \<Rightarrow> py_error + real list \<times> rng" where
  "midi_frame_loop p freq vel start_frame duration_frames total_frames [] st = Inr st"
| "midi_frame_loop p freq vel start_frame duration_frames total_frames (i # is) (audio_data, g) =
     (if start_frame + i \<ge> total_frames then Inr (audio_data, g)
      else
        let t = real_of_int (start_frame + i) / real_of_int sample_rate
        in case np_random_normal 0 (noise_level p) g of
             Inl e \<Rightarrow> Inl e
           | Inr (noise, g') \<Rightarrow>
               (case envelope p duration_frames i of
                  Inl e \<Rightarrow> Inl e
                | Inr env \<Rightarrow>
                    (case np_add_at audio_data (start_frame + i)
                            (midi_tone p freq vel t noise * env * overall_amplitude p) of
                       Inl e \<Rightarrow> Inl e
                     | Inr audio_data' \<Rightarrow>
                         midi_frame_loop p freq vel start_frame duration_frames total_frames
                           is (audio_data', g'))))"

text \<open>\<^verbatim>\<open>for note in midi_notes\<close>\<close>

fun midi_notes_loop ::
  "params \<Rightarrow> int \<Rightarrow> note_data list \<Rightarrow> real list \<times> rng \<Rightarrow> py_error + real list \<times> rng" where
  "midi_notes_loop p total_frames [] st = Inr st"
| "midi_notes_loop p total_frames (n # ns) st =
     (if velocity n = 0 then midi_notes_loop p total_frames ns st
      else
        let freq = midi_to_freq (real (note_no n));
            start_frame = py_int (start_time n * real_of_int sample_rate);
            duration_frames = py_int (duration n * real_of_int sample_rate);
            vel = real (velocity n) / 127
        in case midi_frame_loop p freq vel start_frame duration_frames total_frames
                  (py_range duration_frames) st of
             Inl e \<Rightarrow> Inl e
           | Inr st' \<Rightarrow> midi_notes_loop p total_frames ns st')"

text \<open>\<^verbatim>\<open>total_frames\<close> of the MIDI path: the latest end of a note plus half a second.\<close>

definition midi_total_frames :: "note_data list \<Rightarrow> py_error + int" where
  "midi_total_frames midi_notes =
     (case py_max (map (\<lambda>n. start_time n + duration n) midi_notes) of
        Inl e \<Rightarrow> Inl e
      | Inr max_time \<Rightarrow>
          let total_duration = max_time + 0.5
          in Inr (py_int (total_duration * real_of_int sample_rate)))"

text \<open>The array \<^verbatim>\<open>audio_data\<close> when the loop over the notes is over.\<close>

definition midi_audio_data :: "note_data list \<Rightarrow> params \<Rightarrow> rng \<Rightarrow> py_error + real list \<times> rng" where
  "midi_audio_data midi_notes p g =
     (case midi_total_frames midi_notes of
        Inl e \<Rightarrow> Inl e
      | Inr total_frames \<Rightarrow>
          (case np_zeros total_frames of
             Inl e \<Rightarrow> Inl e
           | Inr audio_data \<Rightarrow> midi_notes_loop p total_frames midi_notes (audio_data, g)))"


subsection \<open>The outside world\<close>

text \<open>
  What the renderer cannot compute by itself. Each field is the outcome of one contact
  with the file system, an external program or a library; the functions below are total
  in it, so a theorem about all worlds is a theorem about all runs.

  The Butterworth filter is \<^verbatim>\<open>scipy\<close>'s. \<open>filtfilt_out\<close> gives its output sample by
  sample; that \<^verbatim>\<open>signal.filtfilt\<close> returns an array of the length of its input, that
  \<^verbatim>\<open>signal.butter\<close> raises \<^verbatim>\<open>ValueError\<close> unless the normalised cutoff lies strictly
  between 0 and 1, and that \<^verbatim>\<open>signal.filtfilt\<close> raises \<^verbatim>\<open>ValueError\<close> unless the input
  is longer than the default padding (15 samples for a filter of order 4) is taken from
  the library's documentation.
\<close>

record wav_file =
  nchannels :: int
  sampwidth :: int
  framerate :: int
  frames :: "16 word list"

record world =
  lilypond_run :: "py_error + int \<times> string"
    \<comment> \<open>building the template, writing the \<^verbatim>\<open>.ly\<close> file and \<^verbatim>\<open>subprocess.run\<close>:
        the exception raised, or the return code and \<^verbatim>\<open>stderr\<close>\<close>
  midi_path :: string
  wav_path :: string
  midi_exists :: bool
    \<comment> \<open>\<^verbatim>\<open>os.path.exists(midi_path)\<close>\<close>
  midi_read :: "py_error + midi_file"
    \<comment> \<open>\<^verbatim>\<open>import mido\<close> and \<^verbatim>\<open>mido.MidiFile(midi_path)\<close>\<close>
  import_error :: "py_error option"
    \<comment> \<open>\<^verbatim>\<open>import wave\<close>, \<^verbatim>\<open>import numpy\<close>, \<^verbatim>\<open>from scipy import signal\<close>\<close>
  filtfilt_out :: "real \<Rightarrow> real list \<Rightarrow> nat \<Rightarrow> real"
  rng :: rng
    \<comment> \<open>the generator when \<^verbatim>\<open>_convert_midi_to_wav_direct\<close> starts\<close>
  rng_fallback :: rng
    \<comment> \<open>the generator when \<^verbatim>\<open>_create_instrument_synthesis_fallback\<close> starts\<close>
  wave_write_error :: "py_error option"
    \<comment> \<open>the exception raised by \<^verbatim>\<open>wave.open(wav_path, 'w')\<close> or \<^verbatim>\<open>writeframes\<close>, if any\<close>
  wav_read_error :: "py_error option"
    \<comment> \<open>the exception raised when the WAV file is read back, if any\<close>

definition butter_filtfilt ::
  "(real \<Rightarrow> real list \<Rightarrow> nat \<Rightarrow> real) \<Rightarrow> real \<Rightarrow> real list \<Rightarrow> py_error + real list" where
  "butter_filtfilt out cutoff_freq audio_data =
     (let nyquist = real_of_int sample_rate / 2;
          normalized_cutoff = cutoff_freq / nyquist
      in if \<not> (0 < normalized_cutoff \<and> normalized_cutoff < 1) then Inl ValueError
         else if length audio_data \<le> 15 then Inl ValueError
         else Inr (map (out normalized_cutoff audio_data) [0..<length audio_data]))"

text \<open>
  The \<^verbatim>\<open>with wave.open(wav_path, 'w')\<close> block: mono, two bytes a sample, at the
  sample rate. The result is the file on disk.
\<close>

definition write_wav :: "world \<Rightarrow> 16 word list \<Rightarrow> py_error + wav_file" where
  "write_wav w pcm =
     (case wave_write_error w of
        Some e \<Rightarrow> Inl e
      | None \<Rightarrow> Inr \<lparr>nchannels = 1, sampwidth = 2, framerate = sample_rate, frames = pcm\<rparr>)"

text \<open>
  The body of the \<^verbatim>\<open>try\<close> of \<^verbatim>\<open>_convert_midi_to_wav_direct\<close>: the value returned and
  the WAV file written, or the exception.
\<close>

definition convert_midi_to_wav_direct_try ::
  "world \<Rightarrow> string \<Rightarrow> py_error + bool \<times> wav_file option" where
  "convert_midi_to_wav_direct_try w instrument =
     (case import_error w of
        Some e \<Rightarrow> Inl e
      | None \<Rightarrow>
          let midi_notes = extract_midi_notes (midi_read w)
          in if midi_notes = [] then Inr (False, None)
             else
               let p = get_instrument_parameters instrument
               in (case midi_audio_data midi_notes p (rng w) of
                     Inl e \<Rightarrow> Inl e
                   | Inr (audio_data, g) \<Rightarrow>
                       (case butter_filtfilt (filtfilt_out w) (filter_cutoff p) audio_data of
                          Inl e \<Rightarrow> Inl e
                        | Inr audio_data' \<Rightarrow>
                            (case write_wav w (to_pcm16 audio_data') of
                               Inl e \<Rightarrow> Inl e
                             | Inr f \<Rightarrow> Inr (True, Some f)))))"

text \<open>\<^verbatim>\<open>except Exception: ... return False\<close>\<close>

definition convert_midi_to_wav_direct :: "world \<Rightarrow> string \<Rightarrow> bool \<times> wav_file option" where
  "convert_midi_to_wav_direct w instrument =
     (case convert_midi_to_wav_direct_try w instrument of
        Inl e \<Rightarrow> (False, None)
      | Inr r \<Rightarrow> r)"

subsection \<open>Notes of the staff: \<^verbatim>\<open>_extract_notes_from_staff\<close>\<close>

text \<open>
  A component of an \<^verbatim>\<open>abjad.Staff\<close>. A pitch is its \<^verbatim>\<open>number\<close>; a written duration is
  a fraction in lowest terms with a positive denominator, which is what \<^typ>\<open>rat\<close>
  and \<^const>\<open>quotient_of\<close> are.
\<close>

datatype component =
    Note real rat
  | Chord "real list" rat
  | Rest rat
  | Other_component

datatype note_type = Type_note | Type_chord | Type_rest

text \<open>
  An entry of \<^verbatim>\<open>notes_data\<close>: \<open>duration_beats\<close> is its key \<^verbatim>\<open>'duration'\<close> and
  \<open>type_tag\<close> its key \<^verbatim>\<open>'type'\<close>.
\<close>

record staff_note =
  midi_note :: "real option"
  duration_beats :: real
  type_tag :: note_type

text \<open>\<^verbatim>\<open>beats = 4 * duration.numerator / duration.denominator\<close>\<close>

definition beats :: "rat \<Rightarrow> real" where
  "beats written_duration =
     (case quotient_of written_duration of
        (numerator, denominator) \<Rightarrow> real_of_int (4 * numerator) / real_of_int denominator)"

fun extract_notes_from_staff :: "component list \<Rightarrow> staff_note list" where
  "extract_notes_from_staff [] = []"
| "extract_notes_from_staff (Note pitch d # staff) =
     \<lparr>midi_note = Some pitch, duration_beats = beats d, type_tag = Type_note\<rparr>
       # extract_notes_from_staff staff"
| "extract_notes_from_staff (Chord written_pitches d # staff) =
     (case written_pitches of
        [] \<Rightarrow> extract_notes_from_staff staff
      | pitch # _ \<Rightarrow>
          \<lparr>midi_note = Some pitch, duration_beats = beats d, type_tag = Type_chord\<rparr>
            # extract_notes_from_staff staff)"
| "extract_notes_from_staff (Rest d # staff) =
     \<lparr>midi_note = None, duration_beats = beats d, type_tag = Type_rest\<rparr>
       # extract_notes_from_staff staff"
| "extract_notes_from_staff (Other_component # staff) = extract_notes_from_staff staff"

subsection \<open>Synthesis from the staff notes: \<^verbatim>\<open>_create_musical_wav_from_notes\<close>\<close>

definition staff_tone :: "params \<Rightarrow> real \<Rightarrow> real \<Rightarrow> real \<Rightarrow> real" where
  "staff_tone p freq t noise =
     (let fundamental = sin (2 * pi * freq * t);
          tone = 0 + fundamental * fundamental_amplitude p;
          tone = fold (\<lambda>h tone.
                   tone + sin (2 * pi * freq * frequency_multiplier h * t) * amplitude h)
                   (harmonics p) tone;
          tone = tone + sin (2 * pi * freq * 2 * t * inharmonicity p) * 0.05
      in tone + noise)"

text \<open>\<^verbatim>\<open>amplitude = 0.7\<close>\<close>

definition staff_amplitude :: real where
  "staff_amplitude = 0.7"

text \<open>\<^verbatim>\<open>for i in range(note_frames)\<close>; the sample is assigned, not added.\<close>

fun staff_frame_loop ::
  "params \<Rightarrow> real \<Rightarrow> int \<Rightarrow> int \<Rightarrow> int \<Rightarrow> int list \<Rightarrow> real list \<times> rng
     \<Rightarrow> py_error + real list \<times> rng" where
  "staff_frame_loop p freq current_frame note_frames total_frames [] st = Inr st"
| "staff_frame_loop p freq current_frame note_frames total_frames (i # is) (audio_data, g) =
     (if current_frame + i \<ge> total_frames then Inr (audio_data, g)
      else
        let t = real_of_int (current_frame + i) / real_of_int sample_rate
        in case np_random_normal 0 (noise_level p) g of
             Inl e \<Rightarrow> Inl e
           | Inr (noise, g') \<Rightarrow>
               (case envelope p note_frames i of
                  Inl e \<Rightarrow> Inl e
                | Inr env \<Rightarrow>
                    (case np_set_at audio_data (current_frame + i)
                            (staff_tone p freq t noise * env * staff_amplitude
                               * overall_amplitude p) of
                       Inl e \<Rightarrow> Inl e
                     | Inr audio_data' \<Rightarrow>
                         staff_frame_loop p freq current_frame note_frames total_frames
                           is (audio_data', g'))))"

text \<open>\<^verbatim>\<open>duration_seconds = duration_beats / beats_per_second\<close>\<close>

definition duration_seconds :: "staff_note \<Rightarrow> real \<Rightarrow> real" where
  "duration_seconds note_info beats_per_second = duration_beats note_info / beats_per_second"

text \<open>
  \<^verbatim>\<open>for note_info in notes_data\<close>. The state is \<^verbatim>\<open>current_frame\<close>, the variable
  \<^verbatim>\<open>params\<close> (unbound until the first note that is not a rest), the array and the
  generator.
\<close>

fun staff_notes_loop ::
  "string \<Rightarrow> real \<Rightarrow> int \<Rightarrow> staff_note list \<Rightarrow> int \<times> params option \<times> real list \<times> rng
     \<Rightarrow> py_error + int \<times> params option \<times> real list \<times> rng" where
  "staff_notes_loop instrument beats_per_second total_frames [] st = Inr st"
| "staff_notes_loop instrument beats_per_second total_frames (note_info # rest)
       (current_frame, params, audio_data, g) =
     (if type_tag note_info = Type_rest then
        staff_notes_loop instrument beats_per_second total_frames rest
          (current_frame, params, audio_data, g)
      else
        let note_frames =
              py_int (duration_seconds note_info beats_per_second * real_of_int sample_rate)
        in case midi_note note_info of
             None \<Rightarrow> Inl TypeError
           | Some m \<Rightarrow>
               let freq = midi_to_freq m;
                   p = get_instrument_parameters instrument
               in (case staff_frame_loop p freq current_frame note_frames total_frames
                          (py_range note_frames) (audio_data, g) of
                     Inl e \<Rightarrow> Inl e
                   | Inr (audio_data', g') \<Rightarrow>
                       staff_notes_loop instrument beats_per_second total_frames rest
                         (current_frame + note_frames, Some p, audio_data', g')))"

text \<open>The array \<^verbatim>\<open>audio_data\<close> and the variable \<^verbatim>\<open>params\<close> when the loop is over.\<close>

definition staff_audio_data ::
  "staff_note list \<Rightarrow> int \<Rightarrow> real \<Rightarrow> string \<Rightarrow> rng
     \<Rightarrow> py_error + int \<times> params option \<times> real list \<times> rng" where
  "staff_audio_data notes_data tempo total_duration instrument g =
     (let beats_per_second = real_of_int tempo / 60
      in if beats_per_second = 0 then Inl ZeroDivisionError
         else
           let total_duration_seconds = total_duration / beats_per_second;
               total_frames = py_int (total_duration_seconds * real_of_int sample_rate)
           in case np_zeros total_frames of
                Inl e \<Rightarrow> Inl e
              | Inr audio_data \<Rightarrow>
                  staff_notes_loop instrument beats_per_second total_frames notes_data
                    (0, None, audio_data, g))"

definition create_musical_wav_from_notes_try ::
  "world \<Rightarrow> staff_note list \<Rightarrow> int \<Rightarrow> real \<Rightarrow> string \<Rightarrow> py_error + bool \<times> wav_file option" where
  "create_musical_wav_from_notes_try w notes_data tempo total_duration instrument =
     (case import_error w of
        Some e \<Rightarrow> Inl e
      | None \<Rightarrow>
          (case staff_audio_data notes_data tempo total_duration instrument (rng_fallback w) of
             Inl e \<Rightarrow> Inl e
           | Inr (current_frame, params, audio_data, g) \<Rightarrow>
               (case params of
                  None \<Rightarrow> Inl NameError
                | Some p \<Rightarrow>
                    (case butter_filtfilt (filtfilt_out w) (filter_cutoff p) audio_data of
                       Inl e \<Rightarrow> Inl e
                     | Inr audio_data' \<Rightarrow>
                         (case write_wav w (to_pcm16 audio_data') of
                            Inl e \<Rightarrow> Inl e
                          | Inr f \<Rightarrow> Inr (True, Some f))))))"

definition create_musical_wav_from_notes ::
  "world \<Rightarrow> staff_note list \<Rightarrow> int \<Rightarrow> real \<Rightarrow> string \<Rightarrow> bool \<times> wav_file option" where
  "create_musical_wav_from_notes w notes_data tempo total_duration instrument =
     (case create_musical_wav_from_notes_try w notes_data tempo total_duration instrument of
        Inl e \<Rightarrow> (False, None)
      | Inr r \<Rightarrow> r)"

subsection \<open>The placeholder tone: \<^verbatim>\<open>_create_simple_wav\<close>\<close>

text \<open>
  One sample of the placeholder: A4 with two harmonics, a tenth of attack and a fifth of
  release. Both divisors are floats, and dividing a float by zero raises.
\<close>

definition simple_sample :: "int \<Rightarrow> int \<Rightarrow> py_error + real" where
  "simple_sample num_frames i =
     (let t = real_of_int i / real_of_int sample_rate;
          frequency = 440;
          amplitude = 0.5;
          tone = 0 + sin (2 * pi * frequency * t) * 0.6;
          tone = tone + sin (2 * pi * frequency * 2 * t) * 0.3;
          tone = tone + sin (2 * pi * frequency * 3 * t) * 0.2;
          attack = real_of_int num_frames * 0.1;
          release = real_of_int num_frames * 0.2
      in if real_of_int i < attack then
           (if attack = 0 then Inl ZeroDivisionError
            else Inr (tone * (real_of_int i / attack) * amplitude))
         else if real_of_int i > real_of_int num_frames - release then
           (if release = 0 then Inl ZeroDivisionError
            else Inr (tone * (real_of_int (num_frames - i) / release) * amplitude))
         else Inr (tone * 1 * amplitude))"

fun simple_frame_loop :: "int \<Rightarrow> int list \<Rightarrow> real list \<Rightarrow> py_error + real list" where
  "simple_frame_loop num_frames [] audio_data = Inr audio_data"
| "simple_frame_loop num_frames (i # is) audio_data =
     (case simple_sample num_frames i of
        Inl e \<Rightarrow> Inl e
      | Inr v \<Rightarrow>
          (case np_set_at audio_data i v of
             Inl e \<Rightarrow> Inl e
           | Inr audio_data' \<Rightarrow> simple_frame_loop num_frames is audio_data'))"

definition create_simple_wav_try :: "world \<Rightarrow> real \<Rightarrow> py_error + wav_file" where
  "create_simple_wav_try w dur =
     (case import_error w of
        Some e \<Rightarrow> Inl e
      | None \<Rightarrow>
          let num_frames = py_int (dur * real_of_int sample_rate)
          in (case np_zeros num_frames of
                Inl e \<Rightarrow> Inl e
              | Inr audio_data \<Rightarrow>
                  (case simple_frame_loop num_frames (py_range num_frames) audio_data of
                     Inl e \<Rightarrow> Inl e
                   | Inr audio_data' \<Rightarrow> write_wav w (to_pcm16 audio_data'))))"

text \<open>
  The function has no \<^verbatim>\<open>return\<close> statement: whether the file is written or the
  exception is swallowed, the caller receives \<^verbatim>\<open>None\<close>. Only the file is a result.
\<close>

definition create_simple_wav :: "world \<Rightarrow> real \<Rightarrow> wav_file option" where
  "create_simple_wav w dur =
     (case create_simple_wav_try w dur of Inl e \<Rightarrow> None | Inr f \<Rightarrow> Some f)"

subsection \<open>The fallback chain\<close>

text \<open>What a function of the renderer hands back where a \<^verbatim>\<open>bool\<close> is announced.\<close>

datatype py_ret = Py_None | Py_bool bool

fun truthy :: "py_ret \<Rightarrow> bool" where
  "truthy Py_None = False"
| "truthy (Py_bool b) = b"

text \<open>\<^verbatim>\<open>_create_instrument_synthesis_fallback\<close>; nothing in its \<^verbatim>\<open>try\<close> raises.\<close>

definition create_instrument_synthesis_fallback ::
  "world \<Rightarrow> component list \<Rightarrow> int \<Rightarrow> string \<Rightarrow> py_ret \<times> wav_file option" where
  "create_instrument_synthesis_fallback w staff tempo instrument =
     (let notes_data = extract_notes_from_staff staff
      in if notes_data = [] then (Py_None, create_simple_wav w 2.0)
         else
           let total_duration = sum_list (map duration_beats notes_data)
           in case create_musical_wav_from_notes w notes_data tempo total_duration instrument of
                (b, f) \<Rightarrow> (Py_bool b, f))"

text \<open>
  \<^verbatim>\<open>_convert_midi_to_wav_with_staff\<close>. \<^verbatim>\<open>_convert_midi_to_wav_direct\<close> catches
  everything, so the \<^verbatim>\<open>except\<close> clause here has nothing to catch.
\<close>

definition convert_midi_to_wav_with_staff ::
  "world \<Rightarrow> component list \<Rightarrow> int \<Rightarrow> string \<Rightarrow> py_ret \<times> wav_file option" where
  "convert_midi_to_wav_with_staff w staff tempo instrument =
     (case convert_midi_to_wav_direct w instrument of
        (result, f) \<Rightarrow>
          if result then (Py_bool True, f)
          else create_instrument_synthesis_fallback w staff tempo instrument)"

subsection \<open>Reading the file back\<close>

text \<open>
  \<^verbatim>\<open>round(x, 1)\<close>: to the nearest tenth, a tie going to the even tenth. (On floats a
  tie only occurs where the half is exactly representable.)
\<close>

definition py_round1 :: "real \<Rightarrow> real" where
  "py_round1 x =
     (let y = x * 10; f = \<lfloor>y\<rfloor>; r = y - real_of_int f
      in real_of_int (if r < 1 / 2 then f
                      else if r > 1 / 2 then f + 1
                      else if even f then f else f + 1) / 10)"

text \<open>\<^verbatim>\<open>_get_wav_duration\<close>, given the file at \<^verbatim>\<open>wav_path\<close> (if there is one).\<close>

definition get_wav_duration_try :: "world \<Rightarrow> wav_file option \<Rightarrow> py_error + real" where
  "get_wav_duration_try w file =
     (case wav_read_error w of
        Some e \<Rightarrow> Inl e
      | None \<Rightarrow>
          (case file of
             None \<Rightarrow> Inl OSError
           | Some wav \<Rightarrow>
               let nframes = int (length (frames wav));
                   rate = framerate wav
               in if rate = 0 then Inl ZeroDivisionError
                  else Inr (py_round1 (real_of_int nframes / real_of_int rate))))"

definition get_wav_duration :: "world \<Rightarrow> wav_file option \<Rightarrow> real" where
  "get_wav_duration w file =
     (case get_wav_duration_try w file of Inl e \<Rightarrow> 2.0 | Inr d \<Rightarrow> d)"

subsection \<open>The facade: \<^verbatim>\<open>render_staff_to_midi\<close>\<close>

text \<open>
  The values of the result dictionary. \<open>V_base64 f\<close> is the base64 text of the bytes
  of the WAV file \<open>f\<close>.
\<close>

datatype py_val =
    V_bool bool
  | V_int int
  | V_float real
  | V_str string
  | V_base64 wav_file

text \<open>\<^verbatim>\<open>_wav_to_base64\<close>: the empty string when the file cannot be read.\<close>

definition wav_to_base64 :: "world \<Rightarrow> wav_file option \<Rightarrow> py_val" where
  "wav_to_base64 w file =
     (case wav_read_error w of
        Some e \<Rightarrow> V_str []
      | None \<Rightarrow> (case file of None \<Rightarrow> V_str [] | Some wav \<Rightarrow> V_base64 wav))"

text \<open>
  The texts of the error results. \<open>str_error\<close> stands for \<^verbatim>\<open>str(e)\<close> and \<open>str_int\<close>
  for the decimal digits of the return code; neither text matters below.
\<close>

definition str_error :: "py_error \<Rightarrow> string" where
  "str_error e =
     (case e of
        IndexError \<Rightarrow> ''IndexError''
      | ValueError \<Rightarrow> ''ValueError''
      | ZeroDivisionError \<Rightarrow> ''ZeroDivisionError''
      | ImportError \<Rightarrow> ''ImportError''
      | OSError \<Rightarrow> ''OSError''
      | TypeError \<Rightarrow> ''TypeError''
      | NameError \<Rightarrow> ''NameError'')"

fun str_nat :: "nat \<Rightarrow> string" where
  "str_nat n =
     (if n < 10 then [char_of (48 + n)]
      else str_nat (n div 10) @ [char_of (48 + n mod 10)])"

definition str_int :: "int \<Rightarrow> string" where
  "str_int i = (if i < 0 then ''-'' @ str_nat (nat (- i)) else str_nat (nat i))"

text \<open>
  The body of the \<^verbatim>\<open>try\<close>: the dictionary returned, or the exception. Only the steps
  before \<^verbatim>\<open>_convert_midi_to_wav_with_staff\<close> can raise; the functions called after
  them catch their own exceptions.
\<close>

definition render_staff_to_midi_try ::
  "world \<Rightarrow> component list \<Rightarrow> int \<Rightarrow> string \<Rightarrow> py_error + (string \<rightharpoonup> py_val)" where
  "render_staff_to_midi_try w staff tempo instrument =
     (case lilypond_run w of
        Inl e \<Rightarrow> Inl e
      | Inr (returncode, stderr) \<Rightarrow>
          if returncode = 0 then
            if midi_exists w then
              (case convert_midi_to_wav_with_staff w staff tempo instrument of
                 (wav_success, file) \<Rightarrow>
                   if truthy wav_success \<and> file \<noteq> None then
                     Inr [''success'' \<mapsto> V_bool True,
                          ''midi_path'' \<mapsto> V_str (midi_path w),
                          ''wav_path'' \<mapsto> V_str (wav_path w),
                          ''audio_base64'' \<mapsto> wav_to_base64 w file,
                          ''tempo'' \<mapsto> V_int tempo,
                          ''duration'' \<mapsto> V_float (get_wav_duration w file),
                          ''instrument'' \<mapsto> V_str instrument]
                   else Inr [''error'' \<mapsto> V_str ''Failed to convert MIDI to WAV''])
            else Inr [''error'' \<mapsto> V_str (''MIDI file not found at '' @ midi_path w)]
          else Inr [''error'' \<mapsto>
                      V_str (''LilyPond failed with return code '' @ str_int returncode
                               @ '': '' @ stderr)])"

text \<open>\<^verbatim>\<open>except Exception as e: return {'error': ...}\<close>\<close>

definition render_staff_to_midi ::
  "world \<Rightarrow> component list \<Rightarrow> int \<Rightarrow> string \<Rightarrow> (string \<rightharpoonup> py_val)" where
  "render_staff_to_midi w staff tempo instrument =
     (case render_staff_to_midi_try w staff tempo instrument of
        Inl e \<Rightarrow> [''error'' \<mapsto> V_str (''Audio generation failed: '' @ str_error e)]
      | Inr result \<Rightarrow> result)"

subsection \<open>Notions used in the statements\<close>







subsection \<open>Inputs used in the examples\<close>



text \<open>
  The invariant of the loop over a track's messages, for a track that began when the list
  held \<open>L\<close> notes: every active note is an element of the list at a position from \<open>L\<close>
  on, has the note number it is filed under, and still has the default duration.
\<close>

definition open_inv :: "nat \<Rightarrow> extract_state \<Rightarrow> bool" where
  "open_inv L s \<longleftrightarrow>
     (\<forall>n i. active_notes s n = Some i \<longrightarrow>
        L \<le> i \<and> i < length (note_list s) \<and> note_no (note_list s ! i) = n
        \<and> duration (note_list s ! i) = 1 / 2)"

text \<open>The number of frames of the file a result carries.\<close>

definition written_frames :: "(string \<rightharpoonup> py_val) \<Rightarrow> nat option" where
  "written_frames result =
     (case result ''audio_base64'' of
        Some (V_base64 f) \<Rightarrow> Some (length (frames f))
      | _ \<Rightarrow> None)"

text \<open>
  A world in which nothing fails and LilyPond has left the given MIDI file. The filter passes
  its input through and every noise draw is 0: stand-ins, on which no value stated below
  depends.
\<close>

definition ideal_world :: "midi_file \<Rightarrow> world" where
  "ideal_world mid =
     \<lparr>lilypond_run = Inr (0, []),
      midi_path = ''/tmp/audio.mid'',
      wav_path = ''/tmp/audio.wav'',
      midi_exists = True,
      midi_read = Inr mid,
      import_error = None,
      filtfilt_out = (\<lambda>cutoff audio_data k. audio_data ! k),
      rng = (\<lambda>_. 0),
      rng_fallback = (\<lambda>_. 0),
      wave_write_error = None,
      wav_read_error = None\<rparr>"

text \<open>A MIDI file without notes, and one with a single note of 317 ticks.\<close>

definition empty_midi :: midi_file where
  "empty_midi = \<lparr>ticks_per_beat = 384, tracks = [[Set_tempo 0 500000, Other_msg 0]]\<rparr>"

definition one_note_midi :: midi_file where
  "one_note_midi =
     \<lparr>ticks_per_beat = 480, tracks = [[Note_on 0 0 60 100, Note_off 317 0 60 0]]\<rparr>"

text \<open>
  The written duration of a staff component, and whether the extraction makes an entry of
  it (a chord without pitches and a component of another kind make none).
\<close>

fun written_duration :: "component \<Rightarrow> rat" where
  "written_duration (Note pitch d) = d"
| "written_duration (Chord written_pitches d) = d"
| "written_duration (Rest d) = d"
| "written_duration Other_component = 0"


text \<open>
  What holds of the state of the extraction at every message: the tempo is positive, the
  running time is not negative, and every note appended so far starts at a time that is
  not negative and lasts a tenth of a second at least.
\<close>

definition times_inv :: "extract_state \<Rightarrow> bool" where
  "times_inv s \<longleftrightarrow>
     0 < tempo_bpm s \<and> 0 \<le> track_time s
     \<and> list_all (\<lambda>n. 0 \<le> start_time n \<and> 1 / 10 \<le> duration n) (note_list s)"

section \<open>Properties\<close>

subsection \<open>Quantisation and the timbre table\<close>

lemma py_int_clip_bounds:
  "- 32767 \<le> py_int (np_clip x (- 32767) 32767) \<and> py_int (np_clip x (- 32767) 32767) \<le> 32767"
  unfolding py_int_def np_clip_def
  by (auto simp: le_floor_iff floor_le_iff ceiling_le_iff le_ceiling_iff min_def max_def)

lemma sint_astype_int16_clip:
  "sint (astype_int16 (np_clip x (- 32767) 32767)) = py_int (np_clip x (- 32767) 32767)"
  using py_int_clip_bounds [of x] unfolding astype_int16_def
  by (simp add: int_word_sint)

lemma length_to_pcm16: "length (to_pcm16 audio_data) = length audio_data"
  by (simp add: to_pcm16_def)

lemmas table_defs =
  instrument_params_def default_params_def piano_params_def violin_params_def
  guitar_params_def flute_params_def clarinet_params_def trumpet_params_def voice_params_def

text \<open>
  Claim C1. Every sample of the 16-bit PCM output, read as a signed number, lies in
  \<open>[-32767, 32767]\<close>; it is the truncation of the sample scaled by 16384 and clipped to
  that range, so the conversion to 16 bits never wraps around; and whatever instrument name
  is looked up, the profile found has an overall amplitude of at most 1.
\<close>

theorem pcm16_samples_clipped:
  "list_all (\<lambda>s. - 32767 \<le> sint s \<and> sint s \<le> 32767) (to_pcm16 audio_data)
   \<and> map sint (to_pcm16 audio_data)
       = map (\<lambda>x. py_int (np_clip (x * 16384) (- 32767) 32767)) audio_data
   \<and> overall_amplitude (get_instrument_parameters instrument) \<le> 1"
proof (intro conjI)
  show "list_all (\<lambda>s. - 32767 \<le> sint s \<and> sint s \<le> 32767) (to_pcm16 audio_data)"
    unfolding to_pcm16_def list_all_iff
    using py_int_clip_bounds by (auto simp: sint_astype_int16_clip)
  show "map sint (to_pcm16 audio_data)
      = map (\<lambda>x. py_int (np_clip (x * 16384) (- 32767) 32767)) audio_data"
    by (simp add: to_pcm16_def sint_astype_int16_clip)
  show "overall_amplitude (get_instrument_parameters instrument) \<le> 1"
    by (simp add: get_instrument_parameters_def table_defs)
qed

subsection \<open>The envelope\<close>

lemma py_int_nonneg: "0 \<le> x \<Longrightarrow> 0 \<le> py_int x"
  by (simp add: py_int_def)

lemma envelope_no_error:
  assumes "0 \<le> i" "i < n"
  shows "\<exists>v. envelope p n i = Inr v"
  using assms unfolding envelope_def Let_def py_truediv_def
  by (auto split: sum.splits)

subsection \<open>The loop over the frames of a MIDI note\<close>

lemma np_add_at_ok:
  "0 \<le> idx \<Longrightarrow> idx < int (length a) \<Longrightarrow> np_add_at a idx v = Inr (a[nat idx := a ! nat idx + v])"
  by (simp add: np_add_at_def np_index_def)

lemma np_set_at_ok:
  "0 \<le> idx \<Longrightarrow> idx < int (length a) \<Longrightarrow> np_set_at a idx v = Inr (a[nat idx := v])"
  by (simp add: np_set_at_def np_index_def)

lemma np_random_normal_ok:
  "0 \<le> s \<Longrightarrow> np_random_normal 0 s g = Inr (0 + s * g 0, \<lambda>k. g (Suc k))"
  by (simp add: np_random_normal_def)

lemma midi_frame_loop_ok:
  assumes "0 \<le> noise_level p" "0 \<le> start" "length audio = nat tf"
    and "\<forall>i\<in>set is. 0 \<le> i \<and> i < n"
  shows "\<exists>audio' g'. midi_frame_loop p freq vel start n tf is (audio, g) = Inr (audio', g')
           \<and> length audio' = length audio"
  using assms
proof (induction "is" arbitrary: audio g)
  case Nil
  then show ?case by simp
next
  case (Cons i "is")
  show ?case
  proof (cases "start + i \<ge> tf")
    case True
    then show ?thesis by simp
  next
    case False
    from Cons.prems have i: "0 \<le> i" "i < n" by auto
    obtain env where env: "envelope p n i = Inr env"
      using envelope_no_error [OF i] by blast
    have idx: "0 \<le> start + i" "start + i < int (length audio)"
      using False Cons.prems i by auto
    let ?v = "midi_tone p freq vel (real_of_int (start + i) / real_of_int sample_rate)
                (0 + noise_level p * g 0) * env * overall_amplitude p"
    let ?a = "audio[nat (start + i) := audio ! nat (start + i) + ?v]"
    have "\<exists>audio' g'. midi_frame_loop p freq vel start n tf is (?a, \<lambda>k. g (Suc k)) = Inr (audio', g')
           \<and> length audio' = length ?a"
      using Cons.prems by (intro Cons.IH) auto
    then show ?thesis
      using False env np_add_at_ok [OF idx] np_random_normal_ok [OF Cons.prems(1)]
      by (simp add: Let_def)
  qed
qed




subsection \<open>Claim C10: the shape of the envelope\<close>

text \<open>
  Claim C10 as stated fails, by design: the phase lengths are the fractions of the note's own
  frame count truncated to whole frames, and a note so short that the attack truncates to no
  frame at all does not start at 0. A note of 10 frames with the default profile has an
  attack of \<open>int(0.2) = 0\<close> frames and no decay, and its frame 0 already holds the sustain
  level 0.7.
\<close>

theorem envelope_short_note_counterexample:
  "py_int (real_of_int 10 * attack_time default_params) = 0
   \<and> envelope default_params 10 0 = Inr (7 / 10)"
  by (simp add: envelope_def default_params_def py_int_def py_truediv_def)

text \<open>
  Claim C10, amended. For a note of \<open>n\<close> frames and a profile with non-negative attack
  and decay fractions: if the attack phase \<open>int(n * attack)\<close> has at least one frame, the
  envelope of frame 0 is exactly 0; and at every frame \<open>i\<close> of the sustain region, from
  \<open>int(n * attack) + int(n * decay)\<close> up to but excluding \<open>n - int(n * release)\<close> (its
  midpoint included), the envelope is exactly the sustain level.
\<close>

theorem envelope_attack_start_and_sustain:
  assumes "0 \<le> n" "0 \<le> attack_time p" "0 \<le> decay_time p"
  shows "(0 < py_int (real_of_int n * attack_time p) \<longrightarrow> envelope p n 0 = Inr 0)
   \<and> (py_int (real_of_int n * attack_time p) + py_int (real_of_int n * decay_time p) \<le> i
        \<and> i < n - py_int (real_of_int n * release_time p)
      \<longrightarrow> envelope p n i = Inr (sustain_level p))"
proof -
  have a: "0 \<le> py_int (real_of_int n * attack_time p)"
    using assms by (intro py_int_nonneg) simp
  have d: "0 \<le> py_int (real_of_int n * decay_time p)"
    using assms by (intro py_int_nonneg) simp
  show ?thesis
    using a d unfolding envelope_def Let_def py_truediv_def
    by (auto split: sum.splits)
qed

text \<open>
  A note of one second (44100 frames) with the default profile: 882 frames of attack, 3528
  of decay, 13230 of release; the sustain region is \<open>[4410, 30870)\<close>, its midpoint 17640.
\<close>

theorem envelope_attack_start_and_sustain_witness:
  "(0::int) \<le> 44100 \<and> 0 \<le> attack_time default_params \<and> 0 \<le> decay_time default_params
   \<and> 0 < py_int (real_of_int 44100 * attack_time default_params)
   \<and> envelope default_params 44100 0 = Inr 0
   \<and> py_int (real_of_int 44100 * attack_time default_params)
       + py_int (real_of_int 44100 * decay_time default_params) = 4410
   \<and> 44100 - py_int (real_of_int 44100 * release_time default_params) = 30870
   \<and> envelope default_params 44100 17640 = Inr (sustain_level default_params)"
  using envelope_attack_start_and_sustain [of 44100 default_params 17640]
  by (simp add: default_params_def py_int_def)

subsection \<open>The loop over the MIDI notes\<close>


lemma set_py_range: "i \<in> set (py_range n) \<Longrightarrow> 0 \<le> i \<and> i < n"
  by (auto simp: py_range_def)

lemma sample_rate_pos: "0 < real_of_int sample_rate"
  by (simp add: sample_rate_def)

lemma start_frame_nonneg: "0 \<le> start_time n \<Longrightarrow> 0 \<le> py_int (start_time n * real_of_int sample_rate)"
  by (intro py_int_nonneg) (simp add: sample_rate_def)

lemma midi_notes_loop_ok:
  assumes "0 \<le> noise_level p" "\<forall>n\<in>set ns. 0 \<le> start_time n" "length audio = nat tf"
  shows "\<exists>audio' g'. midi_notes_loop p tf ns (audio, g) = Inr (audio', g')
           \<and> length audio' = length audio"
  using assms
proof (induction ns arbitrary: audio g)
  case Nil
  then show ?case by simp
next
  case (Cons n ns)
  show ?case
  proof (cases "velocity n = 0")
    case True
    then show ?thesis using Cons by simp
  next
    case False
    let ?start = "py_int (start_time n * real_of_int sample_rate)"
    let ?dur = "py_int (duration n * real_of_int sample_rate)"
    obtain a1 g1 where 1: "midi_frame_loop p (midi_to_freq (real (note_no n)))
        (real (velocity n) / 127) ?start ?dur tf (py_range ?dur) (audio, g) = Inr (a1, g1)"
      and l1: "length a1 = length audio"
      using midi_frame_loop_ok [OF Cons.prems(1) start_frame_nonneg Cons.prems(3), of n "py_range ?dur" ?dur]
        Cons.prems(2) set_py_range by (metis list.set_intros(1))
    have "\<exists>audio' g'. midi_notes_loop p tf ns (a1, g1) = Inr (audio', g')
           \<and> length audio' = length a1"
      using Cons.prems l1 by (intro Cons.IH) auto
    then show ?thesis using False 1 l1 by (simp add: Let_def)
  qed
qed







subsection \<open>The loop over the frames of a staff note\<close>

lemma staff_frame_loop_ok:
  assumes "0 \<le> noise_level p" "0 \<le> start" "length audio = nat tf"
    and "\<forall>i\<in>set is. 0 \<le> i \<and> i < n"
  shows "\<exists>audio' g'. staff_frame_loop p freq start n tf is (audio, g) = Inr (audio', g')
           \<and> length audio' = length audio"
  using assms
proof (induction "is" arbitrary: audio g)
  case Nil
  then show ?case by simp
next
  case (Cons i "is")
  show ?case
  proof (cases "start + i \<ge> tf")
    case True
    then show ?thesis by simp
  next
    case False
    from Cons.prems have i: "0 \<le> i" "i < n" by auto
    obtain env where env: "envelope p n i = Inr env"
      using envelope_no_error [OF i] by blast
    have idx: "0 \<le> start + i" "start + i < int (length audio)"
      using False Cons.prems i by auto
    let ?v = "staff_tone p freq (real_of_int (start + i) / real_of_int sample_rate)
                (0 + noise_level p * g 0) * env * staff_amplitude * overall_amplitude p"
    let ?a = "audio[nat (start + i) := ?v]"
    have "\<exists>audio' g'. staff_frame_loop p freq start n tf is (?a, \<lambda>k. g (Suc k)) = Inr (audio', g')
           \<and> length audio' = length ?a"
      using Cons.prems by (intro Cons.IH) auto
    then show ?thesis
      using False env np_set_at_ok [OF idx] np_random_normal_ok [OF Cons.prems(1)]
      by (simp add: Let_def)
  qed
qed



lemma beats_eq: "beats d = 4 * real_of_rat d"
proof -
  obtain n m where q: "quotient_of d = (n, m)" by (cases "quotient_of d")
  then have "d = of_int n / of_int m" by (rule quotient_of_div)
  then have "real_of_rat d = real_of_int n / real_of_int m"
    by (simp add: of_rat_divide)
  then show ?thesis using q by (simp add: beats_def)
qed

subsection \<open>Claim C7: writes stay inside the array\<close>

text \<open>
  Claim C7. Whatever the note's frame count and wherever it starts (at a frame that is not
  negative), both frame loops end without an exception and leave an array of the length they
  were given, however short it is: a frame whose index is at or past the end is not written,
  the loop stops there.
\<close>

theorem frame_loops_stay_in_bounds:
  assumes "0 \<le> noise_level p" "0 \<le> start_frame" "length audio_data = nat total_frames"
  shows "(\<exists>audio_data' g'.
            midi_frame_loop p freq vel start_frame duration_frames total_frames
              (py_range duration_frames) (audio_data, g) = Inr (audio_data', g')
            \<and> length audio_data' = length audio_data)
       \<and> (\<exists>audio_data' g'.
            staff_frame_loop p freq start_frame duration_frames total_frames
              (py_range duration_frames) (audio_data, g) = Inr (audio_data', g')
            \<and> length audio_data' = length audio_data)"
  using midi_frame_loop_ok [OF assms, of "py_range duration_frames" duration_frames freq vel g]
    staff_frame_loop_ok [OF assms, of "py_range duration_frames" duration_frames freq g]
    set_py_range by blast

text \<open>A note of five frames starting at frame 1 of an array of three.\<close>

theorem frame_loops_stay_in_bounds_witness:
  "0 \<le> noise_level default_params \<and> (0::int) \<le> 1 \<and> length [0, 0, 0 :: real] = nat 3
   \<and> (\<exists>audio_data' g'.
            midi_frame_loop default_params 440 1 1 5 3 (py_range 5) ([0, 0, 0], \<lambda>_. 0)
              = Inr (audio_data', g')
            \<and> length audio_data' = length [0, 0, 0 :: real])
   \<and> (\<exists>audio_data' g'.
            staff_frame_loop default_params 440 1 5 3 (py_range 5) ([0, 0, 0], \<lambda>_. 0)
              = Inr (audio_data', g')
            \<and> length audio_data' = length [0, 0, 0 :: real])"
  using frame_loops_stay_in_bounds [of default_params 1 "[0, 0, 0]" 3 440 1 5 "\<lambda>_. 0"]
  by (simp add: default_params_def)


subsection \<open>Claim C6: accumulation and the order of the events\<close>

lemma table_noise_nonneg: "0 \<le> noise_level (get_instrument_parameters instrument)"
  by (simp add: get_instrument_parameters_def table_defs)














subsection \<open>Claim C8: determinism and the noise term\<close>












subsection \<open>Claim C9: notes still open when a track ends\<close>

lemma open_note_inv:
  assumes "open_inv L s" "L \<le> length (note_list s)"
  shows "open_inv L (open_note c n v s)"
    and "take L (note_list (open_note c n v s)) = take L (note_list s)"
    and "L \<le> length (note_list (open_note c n v s))"
  using assms by (fastforce simp: open_inv_def open_note_def nth_append)+

lemma close_note_inv:
  assumes "open_inv L s" "L \<le> length (note_list s)"
  shows "open_inv L (close_note n s)"
    and "take L (note_list (close_note n s)) = take L (note_list s)"
    and "L \<le> length (note_list (close_note n s))"
proof -
  show "open_inv L (close_note n s)"
  proof (cases "active_notes s n")
    case None
    then show ?thesis using assms by (simp add: close_note_def)
  next
    case (Some idx)
    have idx: "L \<le> idx" "idx < length (note_list s)" "note_no (note_list s ! idx) = n"
      using assms Some by (auto simp: open_inv_def)
    show ?thesis
      unfolding open_inv_def
    proof (intro allI impI)
      fix m i assume a: "active_notes (close_note n s) m = Some i"
      then have m: "m \<noteq> n" and i: "active_notes s m = Some i"
        using Some by (auto simp: close_note_def Let_def split: if_splits)
      have p: "L \<le> i" "i < length (note_list s)" "note_no (note_list s ! i) = m"
        "duration (note_list s ! i) = 1 / 2"
        using assms i by (auto simp: open_inv_def)
      have "i \<noteq> idx" using p idx m by auto
      then show "L \<le> i \<and> i < length (note_list (close_note n s))
          \<and> note_no (note_list (close_note n s) ! i) = m
          \<and> duration (note_list (close_note n s) ! i) = 1 / 2"
        using p Some by (simp add: close_note_def Let_def)
    qed
  qed
  show "take L (note_list (close_note n s)) = take L (note_list s)"
    using assms by (auto simp: close_note_def Let_def open_inv_def split: option.splits)
  show "L \<le> length (note_list (close_note n s))"
    using assms by (auto simp: close_note_def Let_def split: option.splits)
qed

lemma process_msg_inv:
  assumes "process_msg tpb msg s = Inr s'" "open_inv L s" "L \<le> length (note_list s)"
  shows "open_inv L s' \<and> take L (note_list s') = take L (note_list s) \<and> L \<le> length (note_list s')"
proof -
  let ?s1 = "s\<lparr>track_time := track_time s + real (msg_time msg) / real tpb * (60 / tempo_bpm s)\<rparr>"
  have 1: "open_inv L ?s1" "L \<le> length (note_list ?s1)"
    using assms by (simp_all add: open_inv_def)
  show ?thesis
  proof (cases msg)
    case (Note_on t c n v)
    then show ?thesis
      using assms(1) open_note_inv [OF 1] close_note_inv [OF 1]
      by (auto simp: process_msg_def Let_def split: if_splits)
  next
    case (Note_off t c n v)
    then show ?thesis
      using assms(1) close_note_inv [OF 1]
      by (auto simp: process_msg_def Let_def split: if_splits)
  next
    case (Set_tempo t us)
    then show ?thesis
      using assms
      by (auto simp: process_msg_def Let_def open_inv_def split: if_splits sum.splits)
  next
    case (Other_msg t)
    then show ?thesis
      using assms 1
      by (auto simp: process_msg_def Let_def split: if_splits)
  qed
qed

lemma track_loop_inv:
  assumes "track_loop tpb msgs s = Inr s'" "open_inv L s" "L \<le> length (note_list s)"
  shows "open_inv L s' \<and> take L (note_list s') = take L (note_list s) \<and> L \<le> length (note_list s')"
  using assms
proof (induction msgs arbitrary: s)
  case Nil
  then show ?case by simp
next
  case (Cons msg msgs)
  then obtain s1 where 1: "process_msg tpb msg s = Inr s1" and 2: "track_loop tpb msgs s1 = Inr s'"
    by (auto split: sum.splits)
  from process_msg_inv [OF 1 Cons.prems(2,3)]
  have 3: "open_inv L s1" "take L (note_list s1) = take L (note_list s)" "L \<le> length (note_list s1)"
    by auto
  from Cons.IH [OF 2 3(1) 3(3)] 3(2) show ?case by simp
qed

lemma tracks_loop_prefix:
  assumes "tracks_loop tpb trs s = Inr s'"
  shows "take (length (note_list s)) (note_list s') = note_list s"
  using assms
proof (induction trs arbitrary: s)
  case Nil
  then show ?case by simp
next
  case (Cons tr trs)
  let ?s0 = "s\<lparr>track_time := 0, active_notes := Map.empty\<rparr>"
  from Cons.prems obtain s1 where 1: "track_loop tpb tr ?s0 = Inr s1"
    and 2: "tracks_loop tpb trs s1 = Inr s'"
    by (auto split: sum.splits)
  have "open_inv (length (note_list s)) ?s0" by (simp add: open_inv_def)
  from track_loop_inv [OF 1 this]
  have 3: "take (length (note_list s)) (note_list s1) = note_list s"
    "length (note_list s) \<le> length (note_list s1)" by auto
  have "take (length (note_list s)) (note_list s')
      = take (length (note_list s)) (take (length (note_list s1)) (note_list s'))"
    using 3(2) by (simp add: min_def)
  also have "\<dots> = note_list s" using Cons.IH [OF 2] 3(1) by simp
  finally show ?case .
qed

lemma tracks_loop_append:
  "tracks_loop tpb (pre @ post) s
     = (case tracks_loop tpb pre s of Inl e \<Rightarrow> Inl e | Inr s1 \<Rightarrow> tracks_loop tpb post s1)"
  by (induction pre arbitrary: s) (auto split: sum.splits)


text \<open>
  Claim C9 as stated fails, by design: a note is appended to the list when its note-on
  arrives, with the default duration of half a second, and nothing removes it. A track that
  consists of one note-on yields that note.
\<close>

theorem open_note_counterexample:
  "extract_midi_notes (Inr \<lparr>ticks_per_beat = 480, tracks = [[Note_on 0 0 60 100]]\<rparr>)
     = [\<lparr>note_no = 60, velocity = 100, start_time = 0, duration = 1 / 2, channel = 0\<rparr>]"
  by (simp add: extract_midi_notes_def initial_state_def process_msg_def open_note_def)


text \<open>
  Claim C9, amended. A note that is still open when its track ends is not dropped: whatever
  tracks come before and after, it is an element of the emitted list, with its note number
  and the default duration of 0.5 s.
\<close>

theorem unmatched_notes_are_emitted:
  assumes pre: "tracks_loop tpb pre initial_state = Inr s0"
    and tr: "track_loop tpb track (s0\<lparr>track_time := 0, active_notes := Map.empty\<rparr>) = Inr s1"
    and act: "active_notes s1 n = Some idx"
    and post: "tracks_loop tpb post s1 = Inr s'"
  shows "idx < length (extract_midi_notes (Inr \<lparr>ticks_per_beat = tpb, tracks = pre @ track # post\<rparr>))
     \<and> note_no (extract_midi_notes (Inr \<lparr>ticks_per_beat = tpb, tracks = pre @ track # post\<rparr>) ! idx) = n
     \<and> duration (extract_midi_notes (Inr \<lparr>ticks_per_beat = tpb, tracks = pre @ track # post\<rparr>) ! idx)
         = 1 / 2"
proof -
  let ?s0 = "s0\<lparr>track_time := 0, active_notes := Map.empty\<rparr>"
  have "open_inv (length (note_list s0)) ?s0" by (simp add: open_inv_def)
  from track_loop_inv [OF tr this]
  have "open_inv (length (note_list s0)) s1" by simp
  then have 1: "idx < length (note_list s1)" "note_no (note_list s1 ! idx) = n"
    "duration (note_list s1 ! idx) = 1 / 2"
    using act by (auto simp: open_inv_def)
  have t: "take (length (note_list s1)) (note_list s') = note_list s1"
    using post by (rule tracks_loop_prefix)
  have 2: "note_list s' ! idx = note_list s1 ! idx"
    using 1(1) by (metis t nth_take)
  have 3: "idx < length (note_list s')"
    using 1(1) t by (metis length_take min_less_iff_conj)
  have run: "tracks_loop tpb (pre @ track # post) initial_state = Inr s'"
    using pre tr post by (simp add: tracks_loop_append)
  have "extract_midi_notes (Inr \<lparr>ticks_per_beat = tpb, tracks = pre @ track # post\<rparr>) = note_list s'"
    using run 3 by (auto simp: extract_midi_notes_def)
  then show ?thesis using 1 2 3 by simp
qed

text \<open>The file of the counterexample: one track, one note-on for middle C.\<close>

theorem unmatched_notes_are_emitted_witness:
  "tracks_loop 480 [] initial_state = Inr initial_state
   \<and> track_loop 480 [Note_on 0 0 60 100] (initial_state\<lparr>track_time := 0, active_notes := Map.empty\<rparr>)
       = Inr \<lparr>tempo_bpm = 120, track_time = 0,
               note_list = [\<lparr>note_no = 60, velocity = 100, start_time = 0, duration = 1 / 2, channel = 0\<rparr>],
               active_notes = [60 \<mapsto> 0]\<rparr>
   \<and> [60 \<mapsto> 0 :: nat] (60 :: nat) = Some 0
   \<and> (0::nat) < length (extract_midi_notes (Inr \<lparr>ticks_per_beat = 480, tracks = [] @ [Note_on 0 0 60 100] # []\<rparr>))
   \<and> note_no (extract_midi_notes (Inr \<lparr>ticks_per_beat = 480, tracks = [] @ [Note_on 0 0 60 100] # []\<rparr>) ! 0) = 60
   \<and> duration (extract_midi_notes (Inr \<lparr>ticks_per_beat = 480, tracks = [] @ [Note_on 0 0 60 100] # []\<rparr>) ! 0)
       = 1 / 2"
proof -
  have 1: "tracks_loop 480 [] initial_state = Inr initial_state" by simp
  have 2: "track_loop 480 [Note_on 0 0 60 100] (initial_state\<lparr>track_time := 0, active_notes := Map.empty\<rparr>)
       = Inr \<lparr>tempo_bpm = 120, track_time = 0,
               note_list = [\<lparr>note_no = 60, velocity = 100, start_time = 0, duration = 1 / 2, channel = 0\<rparr>],
               active_notes = [60 \<mapsto> 0]\<rparr>"
    by (simp add: initial_state_def process_msg_def open_note_def)
  have 3: "active_notes \<lparr>tempo_bpm = 120, track_time = 0,
               note_list = [\<lparr>note_no = 60, velocity = 100, start_time = 0, duration = 1 / 2, channel = 0\<rparr>],
               active_notes = [60 \<mapsto> 0]\<rparr> 60 = Some 0" by simp
  have 4: "tracks_loop 480 [] \<lparr>tempo_bpm = 120, track_time = 0,
               note_list = [\<lparr>note_no = 60, velocity = 100, start_time = 0, duration = 1 / 2, channel = 0\<rparr>],
               active_notes = [60 \<mapsto> 0]\<rparr> = Inr \<lparr>tempo_bpm = 120, track_time = 0,
               note_list = [\<lparr>note_no = 60, velocity = 100, start_time = 0, duration = 1 / 2, channel = 0\<rparr>],
               active_notes = [60 \<mapsto> 0]\<rparr>" by simp
  show ?thesis
    using unmatched_notes_are_emitted [OF 1 2 3 4] 1 2 by simp
qed

subsection \<open>A render that succeeds on the MIDI path\<close>

lemma fold_max_ge: "(x::real) \<le> fold max xs x"
proof (induction xs arbitrary: x)
  case Nil
  then show ?case by simp
next
  case (Cons y ys)
  have "x \<le> max y x" by simp
  also have "\<dots> \<le> fold max ys (max y x)" by (rule Cons.IH)
  finally show ?case by simp
qed

lemma midi_audio_data_ok:
  assumes "0 \<le> noise_level p" "\<forall>n\<in>set ns. 0 \<le> start_time n"
    and "midi_total_frames ns = Inr tf" "0 \<le> tf"
  shows "\<exists>audio g'. midi_audio_data ns p g = Inr (audio, g') \<and> length audio = nat tf"
  using midi_notes_loop_ok [OF assms(1,2), of "replicate (nat tf) 0" tf g] assms(3,4)
  by (auto simp: midi_audio_data_def np_zeros_def)

lemma table_cutoff:
  "0 < filter_cutoff (get_instrument_parameters instrument) / (real_of_int sample_rate / 2)
   \<and> filter_cutoff (get_instrument_parameters instrument) / (real_of_int sample_rate / 2) < 1"
  by (simp add: get_instrument_parameters_def table_defs sample_rate_def)

lemma butter_filtfilt_ok:
  assumes "15 < length audio"
  shows "\<exists>audio'. butter_filtfilt out (filter_cutoff (get_instrument_parameters instrument)) audio
           = Inr audio' \<and> length audio' = length audio"
  using assms table_cutoff [of instrument] by (simp add: butter_filtfilt_def Let_def)

lemma direct_success:
  assumes "import_error w = None" "wave_write_error w = None"
    and "extract_midi_notes (midi_read w) \<noteq> []"
    and "\<forall>n\<in>set (extract_midi_notes (midi_read w)). 0 \<le> start_time n"
    and "midi_total_frames (extract_midi_notes (midi_read w)) = Inr tf" "15 < tf"
  shows "\<exists>pcm. convert_midi_to_wav_direct w instrument
           = (True, Some \<lparr>nchannels = 1, sampwidth = 2, framerate = sample_rate, frames = pcm\<rparr>)
         \<and> length pcm = nat tf"
proof -
  let ?p = "get_instrument_parameters instrument"
  obtain audio g' where a: "midi_audio_data (extract_midi_notes (midi_read w)) ?p (rng w) = Inr (audio, g')"
    and la: "length audio = nat tf"
    using midi_audio_data_ok [OF table_noise_nonneg assms(4,5), of instrument "rng w"] assms(6) by auto
  obtain audio' where f: "butter_filtfilt (filtfilt_out w) (filter_cutoff ?p) audio = Inr audio'"
    and lf: "length audio' = length audio"
  proof -
    have "15 < length audio" using la assms(6) by linarith
    from butter_filtfilt_ok [OF this, of "filtfilt_out w" instrument] that show ?thesis by blast
  qed
  show ?thesis
    using assms(1,2,3) a f la lf
    by (simp add: convert_midi_to_wav_direct_def convert_midi_to_wav_direct_try_def Let_def
        write_wav_def length_to_pcm16)
qed

lemma render_direct_success:
  assumes "lilypond_run w = Inr (0, stderr)" "midi_exists w"
    and "import_error w = None" "wave_write_error w = None"
    and "extract_midi_notes (midi_read w) \<noteq> []"
    and "\<forall>n\<in>set (extract_midi_notes (midi_read w)). 0 \<le> start_time n"
    and "midi_total_frames (extract_midi_notes (midi_read w)) = Inr tf" "15 < tf"
  shows "\<exists>pcm. length pcm = nat tf
         \<and> render_staff_to_midi w staff tempo instrument
           = [''success'' \<mapsto> V_bool True,
              ''midi_path'' \<mapsto> V_str (midi_path w),
              ''wav_path'' \<mapsto> V_str (wav_path w),
              ''audio_base64'' \<mapsto> wav_to_base64 w
                 (Some \<lparr>nchannels = 1, sampwidth = 2, framerate = sample_rate, frames = pcm\<rparr>),
              ''tempo'' \<mapsto> V_int tempo,
              ''duration'' \<mapsto> V_float (get_wav_duration w
                 (Some \<lparr>nchannels = 1, sampwidth = 2, framerate = sample_rate, frames = pcm\<rparr>)),
              ''instrument'' \<mapsto> V_str instrument]"
proof -
  obtain pcm where d: "convert_midi_to_wav_direct w instrument
           = (True, Some \<lparr>nchannels = 1, sampwidth = 2, framerate = sample_rate, frames = pcm\<rparr>)"
    and l: "length pcm = nat tf"
    using direct_success [OF assms(3-8)] by blast
  have "render_staff_to_midi w staff tempo instrument
           = [''success'' \<mapsto> V_bool True,
              ''midi_path'' \<mapsto> V_str (midi_path w),
              ''wav_path'' \<mapsto> V_str (wav_path w),
              ''audio_base64'' \<mapsto> wav_to_base64 w
                 (Some \<lparr>nchannels = 1, sampwidth = 2, framerate = sample_rate, frames = pcm\<rparr>),
              ''tempo'' \<mapsto> V_int tempo,
              ''duration'' \<mapsto> V_float (get_wav_duration w
                 (Some \<lparr>nchannels = 1, sampwidth = 2, framerate = sample_rate, frames = pcm\<rparr>)),
              ''instrument'' \<mapsto> V_str instrument]"
    using assms(1,2) d
    by (simp add: render_staff_to_midi_def render_staff_to_midi_try_def
        convert_midi_to_wav_with_staff_def)
  then show ?thesis using l by blast
qed



lemma empty_midi_total: "midi_total_frames [test_note] = Inr 66150"
  by (simp add: midi_total_frames_def py_max_def test_note_def py_int_def sample_rate_def)

lemma duration_66150:
  "wav_read_error w = None \<Longrightarrow> length pcm = 66150 \<Longrightarrow>
   get_wav_duration w (Some \<lparr>nchannels = 1, sampwidth = 2, framerate = sample_rate, frames = pcm\<rparr>) = 3 / 2"
  by (simp add: get_wav_duration_def get_wav_duration_try_def sample_rate_def py_round1_def Let_def)

lemma empty_midi_render:
  assumes "lilypond_run w = Inr (0, stderr)" "midi_exists w"
    and "import_error w = None" "wave_write_error w = None" "wav_read_error w = None"
    and "midi_read w = Inr mid"
    and "tracks_loop (ticks_per_beat mid) (tracks mid) initial_state = Inr s" "note_list s = []"
  shows "extract_midi_notes (midi_read w)
           = [\<lparr>note_no = 60, velocity = 100, start_time = 0, duration = 1, channel = 0\<rparr>]
     \<and> render_staff_to_midi w staff tempo instrument ''success'' = Some (V_bool True)
     \<and> render_staff_to_midi w staff tempo instrument ''error'' = None
     \<and> written_frames (render_staff_to_midi w staff tempo instrument) = Some 66150
     \<and> render_staff_to_midi w staff tempo instrument ''duration'' = Some (V_float (3 / 2))"
proof -
  have e: "extract_midi_notes (midi_read w) = [test_note]"
    using assms(6-8) by (simp add: extract_midi_notes_def)
  have 1: "extract_midi_notes (midi_read w) \<noteq> []" using e by simp
  have 2: "\<forall>n\<in>set (extract_midi_notes (midi_read w)). 0 \<le> start_time n"
    using e by (simp add: test_note_def)
  have 3: "midi_total_frames (extract_midi_notes (midi_read w)) = Inr 66150"
    using e empty_midi_total by simp
  obtain pcm where l: "length pcm = nat 66150"
    and r: "render_staff_to_midi w staff tempo instrument
           = [''success'' \<mapsto> V_bool True,
              ''midi_path'' \<mapsto> V_str (midi_path w),
              ''wav_path'' \<mapsto> V_str (wav_path w),
              ''audio_base64'' \<mapsto> wav_to_base64 w
                 (Some \<lparr>nchannels = 1, sampwidth = 2, framerate = sample_rate, frames = pcm\<rparr>),
              ''tempo'' \<mapsto> V_int tempo,
              ''duration'' \<mapsto> V_float (get_wav_duration w
                 (Some \<lparr>nchannels = 1, sampwidth = 2, framerate = sample_rate, frames = pcm\<rparr>)),
              ''instrument'' \<mapsto> V_str instrument]"
    using render_direct_success [OF assms(1-4) 1 2 3, of staff tempo instrument] by auto
  have d: "get_wav_duration w
      (Some \<lparr>nchannels = 1, sampwidth = 2, framerate = sample_rate, frames = pcm\<rparr>) = 3 / 2"
    using assms(5) l by (intro duration_66150) simp_all
  show ?thesis
    using e l assms(5) unfolding r d
    by (simp add: test_note_def written_frames_def wav_to_base64_def)
qed


lemma empty_midi_run:
  "tracks_loop (ticks_per_beat empty_midi) (tracks empty_midi) initial_state
     = Inr \<lparr>tempo_bpm = 120, track_time = 0, note_list = [], active_notes = Map.empty\<rparr>"
  by (simp add: empty_midi_def initial_state_def process_msg_def tempo2bpm_def)

subsection \<open>Claim C3: the placeholder event\<close>

text \<open>
  Claim C3 as stated fails. The placeholder event is appended by the MIDI extraction alone,
  when the file parses and holds no note, whatever the score; the synthesis then sizes the
  array for 1.0 s plus the half second of margin, so the render of an empty score reports
  1.5 s, not about 1.0 s. And when both extractions come back empty (here the MIDI library
  is missing and the score is empty), no placeholder event is made: the renderer writes its
  two-second A4 tone, \<^verbatim>\<open>_create_simple_wav\<close> returns nothing, and the facade reports a
  failure.
\<close>

theorem empty_score_counterexample:
  "render_staff_to_midi (ideal_world empty_midi) [] 120 ''Music Theory'' ''duration''
     = Some (V_float (3 / 2))
   \<and> render_staff_to_midi ((ideal_world empty_midi)\<lparr>midi_read := Inl ImportError\<rparr>) [] 120
         ''Music Theory''
     = [''error'' \<mapsto> V_str ''Failed to convert MIDI to WAV'']"
proof
  show "render_staff_to_midi (ideal_world empty_midi) [] 120 ''Music Theory'' ''duration''
     = Some (V_float (3 / 2))"
    using empty_midi_render [of "ideal_world empty_midi" "[]" empty_midi
      "\<lparr>tempo_bpm = 120, track_time = 0, note_list = [], active_notes = Map.empty\<rparr>"
      "[]" 120 "''Music Theory''"] empty_midi_run
    by (simp add: ideal_world_def)
  show "render_staff_to_midi ((ideal_world empty_midi)\<lparr>midi_read := Inl ImportError\<rparr>) [] 120
         ''Music Theory''
     = [''error'' \<mapsto> V_str ''Failed to convert MIDI to WAV'']"
    by (simp add: render_staff_to_midi_def render_staff_to_midi_try_def
        convert_midi_to_wav_with_staff_def convert_midi_to_wav_direct_def
        convert_midi_to_wav_direct_try_def create_instrument_synthesis_fallback_def
        extract_midi_notes_def ideal_world_def)
qed


text \<open>
  Claim C3, amended to what the code does by design. If the MIDI file parses and holds no
  note, the extraction yields the single placeholder event: middle C (60), velocity 100, at
  0 s, for 1.0 s. The render then succeeds whatever the score is, provided nothing outside
  the renderer fails, with 66150 frames written and a reported duration of 1.5 s.
\<close>

theorem empty_midi_renders_placeholder:
  assumes "lilypond_run w = Inr (0, stderr)" "midi_exists w"
    and "import_error w = None" "wave_write_error w = None" "wav_read_error w = None"
    and "midi_read w = Inr mid"
    and "tracks_loop (ticks_per_beat mid) (tracks mid) initial_state = Inr s" "note_list s = []"
  shows "extract_midi_notes (midi_read w)
           = [\<lparr>note_no = 60, velocity = 100, start_time = 0, duration = 1, channel = 0\<rparr>]
     \<and> render_staff_to_midi w staff tempo instrument ''success'' = Some (V_bool True)
     \<and> render_staff_to_midi w staff tempo instrument ''error'' = None
     \<and> written_frames (render_staff_to_midi w staff tempo instrument) = Some 66150
     \<and> render_staff_to_midi w staff tempo instrument ''duration'' = Some (V_float (3 / 2))"
  using assms by (rule empty_midi_render)

text \<open>The world in which LilyPond left a MIDI file with a tempo and no note.\<close>

theorem empty_midi_renders_placeholder_witness:
  "lilypond_run (ideal_world empty_midi) = Inr (0, [])
   \<and> midi_exists (ideal_world empty_midi)
   \<and> import_error (ideal_world empty_midi) = None
   \<and> wave_write_error (ideal_world empty_midi) = None
   \<and> wav_read_error (ideal_world empty_midi) = None
   \<and> midi_read (ideal_world empty_midi) = Inr empty_midi
   \<and> tracks_loop (ticks_per_beat empty_midi) (tracks empty_midi) initial_state
       = Inr \<lparr>tempo_bpm = 120, track_time = 0, note_list = [], active_notes = Map.empty\<rparr>
   \<and> extract_midi_notes (midi_read (ideal_world empty_midi))
       = [\<lparr>note_no = 60, velocity = 100, start_time = 0, duration = 1, channel = 0\<rparr>]
   \<and> render_staff_to_midi (ideal_world empty_midi) [] 120 ''Violin'' ''success'' = Some (V_bool True)
   \<and> render_staff_to_midi (ideal_world empty_midi) [] 120 ''Violin'' ''error'' = None
   \<and> written_frames (render_staff_to_midi (ideal_world empty_midi) [] 120 ''Violin'') = Some 66150
   \<and> render_staff_to_midi (ideal_world empty_midi) [] 120 ''Violin'' ''duration''
       = Some (V_float (3 / 2))"
  using empty_midi_renders_placeholder [of "ideal_world empty_midi" "[]" empty_midi
      "\<lparr>tempo_bpm = 120, track_time = 0, note_list = [], active_notes = Map.empty\<rparr>"
      "[]" 120 "''Violin''"] empty_midi_run
  by (simp add: ideal_world_def)

subsection \<open>Claim C5: the reported duration\<close>
















subsection \<open>Claim C2: exceptions and the result of the facade\<close>

lemma direct_fails:
  assumes "import_error w \<noteq> None \<or> wave_write_error w \<noteq> None"
  shows "convert_midi_to_wav_direct w instrument = (False, None)"
  using assms
  by (auto simp: convert_midi_to_wav_direct_def convert_midi_to_wav_direct_try_def Let_def
      write_wav_def split: sum.splits option.splits prod.splits)

lemma musical_fails:
  assumes "import_error w \<noteq> None \<or> wave_write_error w \<noteq> None"
  shows "create_musical_wav_from_notes w nd tempo td instrument = (False, None)"
  using assms
  by (auto simp: create_musical_wav_from_notes_def create_musical_wav_from_notes_try_def
      write_wav_def split: sum.splits option.splits prod.splits)

lemma with_staff_fails:
  assumes "import_error w \<noteq> None \<or> wave_write_error w \<noteq> None"
  shows "\<not> truthy (fst (convert_midi_to_wav_with_staff w staff tempo instrument))"
  using direct_fails [OF assms] musical_fails [OF assms]
  by (simp add: convert_midi_to_wav_with_staff_def create_instrument_synthesis_fallback_def Let_def)

lemma render_cases:
  "(\<exists>msg. render_staff_to_midi w staff tempo instrument = [''error'' \<mapsto> V_str msg])
   \<or> (render_staff_to_midi w staff tempo instrument ''success'' = Some (V_bool True)
      \<and> render_staff_to_midi w staff tempo instrument ''error'' = None)"
  by (auto simp: render_staff_to_midi_def render_staff_to_midi_try_def
      split: sum.splits prod.splits)

lemma render_lilypond_raises:
  "lilypond_run w = Inl e \<Longrightarrow>
   render_staff_to_midi w staff tempo instrument
     = [''error'' \<mapsto> V_str (''Audio generation failed: '' @ str_error e)]"
  by (simp add: render_staff_to_midi_def render_staff_to_midi_try_def)

lemma render_stage_raises:
  assumes "lilypond_run w = Inr (0, stderr)" "midi_exists w"
    and "import_error w \<noteq> None \<or> wave_write_error w \<noteq> None"
  shows "render_staff_to_midi w staff tempo instrument
     = [''error'' \<mapsto> V_str ''Failed to convert MIDI to WAV'']"
  using assms(1,2) with_staff_fails [OF assms(3), of staff tempo instrument]
  by (auto simp: render_staff_to_midi_def render_staff_to_midi_try_def split: prod.splits)

text \<open>
  Claim C2 as stated fails, by design: a failed render returns \<^verbatim>\<open>{'error': ...}\<close>, a
  dictionary without any \<^verbatim>\<open>'success'\<close> entry (the callers read the result with
  \<^verbatim>\<open>result.get('success')\<close>, which a missing entry makes false). Here the encoder raises
  while the file is written, in the MIDI path and again in the fallback.
\<close>

theorem encode_failure_counterexample:
  "render_staff_to_midi ((ideal_world one_note_midi)\<lparr>wave_write_error := Some OSError\<rparr>)
     [Note 0 (1 / 4)] 120 ''Piano''
     = [''error'' \<mapsto> V_str ''Failed to convert MIDI to WAV'']
   \<and> render_staff_to_midi ((ideal_world one_note_midi)\<lparr>wave_write_error := Some OSError\<rparr>)
       [Note 0 (1 / 4)] 120 ''Piano'' ''success'' = None"
proof -
  have "render_staff_to_midi ((ideal_world one_note_midi)\<lparr>wave_write_error := Some OSError\<rparr>)
     [Note 0 (1 / 4)] 120 ''Piano''
     = [''error'' \<mapsto> V_str ''Failed to convert MIDI to WAV'']"
    by (rule render_stage_raises [where stderr = "[]"]) (simp_all add: ideal_world_def)
  then show ?thesis by simp
qed


text \<open>
  Claim C2, amended. In every world the facade returns a dictionary: either one that holds
  an error text and nothing else, or one whose \<^verbatim>\<open>'success'\<close> is true and that holds no
  error. An exception raised before the conversion (template, file, LilyPond) is caught by
  the facade itself and becomes the text \<^verbatim>\<open>'Audio generation failed: ...'\<close>; an exception
  raised while importing the libraries or writing the file is caught inside the stage, which
  then reports failure, in the MIDI path and in the fallback alike, and the facade returns
  \<^verbatim>\<open>'Failed to convert MIDI to WAV'\<close>.
\<close>

theorem render_never_raises:
  "((\<exists>msg. render_staff_to_midi w staff tempo instrument = [''error'' \<mapsto> V_str msg])
    \<or> (render_staff_to_midi w staff tempo instrument ''success'' = Some (V_bool True)
       \<and> render_staff_to_midi w staff tempo instrument ''error'' = None))
   \<and> (lilypond_run w = Inl e \<longrightarrow>
        render_staff_to_midi w staff tempo instrument
          = [''error'' \<mapsto> V_str (''Audio generation failed: '' @ str_error e)])
   \<and> (lilypond_run w = Inr (0, stderr) \<and> midi_exists w
        \<and> (import_error w \<noteq> None \<or> wave_write_error w \<noteq> None) \<longrightarrow>
        render_staff_to_midi w staff tempo instrument
          = [''error'' \<mapsto> V_str ''Failed to convert MIDI to WAV''])"
  using render_cases render_lilypond_raises render_stage_raises by blast

text \<open>LilyPond cannot be started; and the libraries cannot be imported.\<close>

theorem render_never_raises_witness:
  "lilypond_run ((ideal_world empty_midi)\<lparr>lilypond_run := Inl OSError\<rparr>) = Inl OSError
   \<and> render_staff_to_midi ((ideal_world empty_midi)\<lparr>lilypond_run := Inl OSError\<rparr>)
         [Note 0 (1 / 4)] 120 ''Flute''
       = [''error'' \<mapsto> V_str ''Audio generation failed: OSError'']
   \<and> lilypond_run ((ideal_world one_note_midi)\<lparr>import_error := Some ImportError\<rparr>) = Inr (0, [])
   \<and> midi_exists ((ideal_world one_note_midi)\<lparr>import_error := Some ImportError\<rparr>)
   \<and> import_error ((ideal_world one_note_midi)\<lparr>import_error := Some ImportError\<rparr>) \<noteq> None
   \<and> render_staff_to_midi ((ideal_world one_note_midi)\<lparr>import_error := Some ImportError\<rparr>)
         [Note 0 (1 / 4)] 120 ''Flute''
       = [''error'' \<mapsto> V_str ''Failed to convert MIDI to WAV'']"
  using render_never_raises [of "(ideal_world empty_midi)\<lparr>lilypond_run := Inl OSError\<rparr>"
      "[Note 0 (1 / 4)]" 120 "''Flute''" OSError "[]"]
    render_never_raises [of "(ideal_world one_note_midi)\<lparr>import_error := Some ImportError\<rparr>"
      "[Note 0 (1 / 4)]" 120 "''Flute''" OSError "[]"]
  by (simp add: ideal_world_def str_error_def)

subsection \<open>Claim C4: durations of the notes of the staff\<close>








subsection \<open>Neither path writes before the start of the array\<close>

text \<open>
  The frame loops are entered with a start frame that is not negative on both paths. On the
  MIDI path the start times come from the extraction, which sums delays that are not
  negative; the array then holds more than fifteen frames, since the last note ends at a
  tenth of a second at least and half a second is added.
\<close>

lemma close_note_times: "times_inv s \<Longrightarrow> times_inv (close_note n s)"
proof (cases "active_notes s n")
  case None
  then show "times_inv s \<Longrightarrow> ?thesis" by (simp add: close_note_def)
next
  case (Some idx)
  assume a: "times_inv s"
  let ?d = "track_time s - start_time (note_list s ! idx)"
  let ?n = "(note_list s ! idx)\<lparr>duration := if ?d < 0.1 then 0.5 else ?d\<rparr>"
  have n: "0 \<le> start_time ?n \<and> 1 / 10 \<le> duration ?n" if "idx < length (note_list s)"
    using a that by (auto simp: times_inv_def list_all_length)
  have "list_all (\<lambda>n. 0 \<le> start_time n \<and> 1 / 10 \<le> duration n) ((note_list s)[idx := ?n])"
    unfolding list_all_length
  proof (intro allI impI)
    fix k assume k: "k < length ((note_list s)[idx := ?n])"
    show "0 \<le> start_time ((note_list s)[idx := ?n] ! k)
        \<and> 1 / 10 \<le> duration ((note_list s)[idx := ?n] ! k)"
    proof (cases "k = idx")
      case True
      then show ?thesis using n k by simp
    next
      case False
      then show ?thesis using a k by (simp add: times_inv_def list_all_length)
    qed
  qed
  then show ?thesis using a Some by (simp add: close_note_def Let_def times_inv_def)
qed

lemma open_note_times: "times_inv s \<Longrightarrow> times_inv (open_note c n v s)"
  by (simp add: open_note_def times_inv_def)

lemma process_msg_times:
  assumes "process_msg tpb msg s = Inr s'" "times_inv s"
  shows "times_inv s'"
proof -
  let ?s1 = "s\<lparr>track_time := track_time s + real (msg_time msg) / real tpb * (60 / tempo_bpm s)\<rparr>"
  have "0 \<le> real (msg_time msg) / real tpb * (60 / tempo_bpm s)"
    using assms(2) by (simp add: times_inv_def)
  then have 1: "times_inv ?s1" using assms(2) by (simp add: times_inv_def)
  show ?thesis
  proof (cases msg)
    case (Note_on t c n v)
    then show ?thesis
      using assms(1) open_note_times [OF 1] close_note_times [OF 1]
      by (auto simp: process_msg_def Let_def split: if_splits)
  next
    case (Note_off t c n v)
    then show ?thesis
      using assms(1) close_note_times [OF 1]
      by (auto simp: process_msg_def Let_def split: if_splits)
  next
    case (Set_tempo t us)
    then show ?thesis
      using assms(1) 1
      by (auto simp: process_msg_def Let_def times_inv_def tempo2bpm_def split: if_splits)
  next
    case (Other_msg t)
    then show ?thesis
      using assms(1) 1 by (auto simp: process_msg_def Let_def split: if_splits)
  qed
qed

lemma track_loop_times:
  "track_loop tpb msgs s = Inr s' \<Longrightarrow> times_inv s \<Longrightarrow> times_inv s'"
proof (induction msgs arbitrary: s)
  case Nil
  then show ?case by simp
next
  case (Cons msg msgs)
  then obtain s1 where 1: "process_msg tpb msg s = Inr s1" and 2: "track_loop tpb msgs s1 = Inr s'"
    by (auto split: sum.splits)
  show ?case using Cons.IH [OF 2 process_msg_times [OF 1 Cons.prems(2)]] .
qed

lemma tracks_loop_times:
  "tracks_loop tpb trs s = Inr s' \<Longrightarrow> times_inv s \<Longrightarrow> times_inv s'"
proof (induction trs arbitrary: s)
  case Nil
  then show ?case by simp
next
  case (Cons tr trs)
  let ?s0 = "s\<lparr>track_time := 0, active_notes := Map.empty\<rparr>"
  from Cons.prems obtain s1 where 1: "track_loop tpb tr ?s0 = Inr s1"
    and 2: "tracks_loop tpb trs s1 = Inr s'"
    by (auto split: sum.splits)
  have "times_inv ?s0" using Cons.prems(2) by (simp add: times_inv_def)
  from Cons.IH [OF 2 track_loop_times [OF 1 this]] show ?case .
qed

lemma extract_times:
  "list_all (\<lambda>n. 0 \<le> start_time n \<and> 1 / 10 \<le> duration n) (extract_midi_notes src)"
proof (cases src)
  case (Inl e)
  then show ?thesis by (simp add: extract_midi_notes_def)
next
  case (Inr mid)
  show ?thesis
  proof (cases "tracks_loop (ticks_per_beat mid) (tracks mid) initial_state")
    case (Inl e)
    then show ?thesis using Inr by (simp add: extract_midi_notes_def)
  next
    case s: (Inr s)
    have "times_inv initial_state" by (simp add: times_inv_def initial_state_def)
    from tracks_loop_times [OF s this] show ?thesis
      using Inr s by (simp add: extract_midi_notes_def times_inv_def test_note_def)
  qed
qed

lemma midi_total_frames_pos:
  assumes "ns \<noteq> []" "list_all (\<lambda>n. 0 \<le> start_time n \<and> 1 / 10 \<le> duration n) ns"
  shows "\<exists>tf. midi_total_frames ns = Inr tf \<and> 15 < tf"
proof -
  obtain n ns' where ns: "ns = n # ns'" using assms(1) by (cases ns) auto
  let ?m = "fold max (map (\<lambda>n. start_time n + duration n) ns') (start_time n + duration n)"
  have "1 / 10 \<le> start_time n + duration n" using assms(2) ns by simp
  also have "\<dots> \<le> ?m" by (rule fold_max_ge)
  finally have "26460 \<le> (?m + 0.5) * real_of_int sample_rate"
    by (simp add: sample_rate_def)
  then have "26460 \<le> py_int ((?m + 0.5) * real_of_int sample_rate)"
    by (simp add: py_int_def le_floor_iff)
  then show ?thesis
    using ns by (simp add: midi_total_frames_def py_max_def)
qed

lemma midi_synthesis_never_fails:
  assumes "extract_midi_notes src \<noteq> []"
  shows "\<exists>audio g'. midi_audio_data (extract_midi_notes src) (get_instrument_parameters instrument) g
           = Inr (audio, g') \<and> 15 < length audio"
proof -
  have t: "list_all (\<lambda>n. 0 \<le> start_time n \<and> 1 / 10 \<le> duration n) (extract_midi_notes src)"
    by (rule extract_times)
  then have s: "\<forall>n\<in>set (extract_midi_notes src). 0 \<le> start_time n"
    by (simp add: list_all_iff)
  obtain tf where tf: "midi_total_frames (extract_midi_notes src) = Inr tf" "15 < tf"
    using midi_total_frames_pos [OF assms t] by blast
  then have "0 \<le> tf" by simp
  from midi_audio_data_ok [OF table_noise_nonneg s tf(1) this, of instrument g] tf(2)
  show ?thesis by auto
qed


text \<open>
  On the staff path the start frame is the sum of the frame counts of the notes before, none
  of them negative when the tempo is positive and no written duration is negative.
\<close>

lemma staff_notes_loop_ok:
  assumes "0 < beats_per_second" "\<forall>n\<in>set ns. 0 \<le> duration_beats n"
    and "\<forall>n\<in>set ns. type_tag n \<noteq> Type_rest \<longrightarrow> midi_note n \<noteq> None"
    and "0 \<le> cf" "length a = nat tf"
  shows "\<exists>cf' ps' a' g'.
           staff_notes_loop instrument beats_per_second tf ns (cf, ps, a, g) = Inr (cf', ps', a', g')
         \<and> length a' = length a"
  using assms
proof (induction ns arbitrary: cf ps a g)
  case Nil
  then show ?case by simp
next
  case (Cons n ns)
  show ?case
  proof (cases "type_tag n = Type_rest")
    case True
    have "\<exists>cf' ps' a' g'.
           staff_notes_loop instrument beats_per_second tf ns (cf, ps, a, g) = Inr (cf', ps', a', g')
         \<and> length a' = length a"
      using Cons.prems by (intro Cons.IH) auto
    then show ?thesis using True by simp
  next
    case False
    let ?p = "get_instrument_parameters instrument"
    let ?nf = "py_int (duration_seconds n beats_per_second * real_of_int sample_rate)"
    obtain m where m: "midi_note n = Some m" using Cons.prems(3) False by auto
    have "0 \<le> duration_seconds n beats_per_second * real_of_int sample_rate"
      using Cons.prems(1,2) by (simp add: duration_seconds_def sample_rate_def)
    then have nf: "0 \<le> ?nf" by (rule py_int_nonneg)
    obtain a1 g1 where 1: "staff_frame_loop ?p (midi_to_freq m) cf ?nf tf (py_range ?nf) (a, g)
        = Inr (a1, g1)" and l1: "length a1 = length a"
      using staff_frame_loop_ok [OF table_noise_nonneg Cons.prems(4,5), of "py_range ?nf" ?nf instrument "midi_to_freq m" g]
        set_py_range by blast
    have "\<exists>cf' ps' a' g'.
           staff_notes_loop instrument beats_per_second tf ns (cf + ?nf, Some ?p, a1, g1)
             = Inr (cf', ps', a', g')
         \<and> length a' = length a1"
      using Cons.prems nf l1 by (intro Cons.IH) auto
    then show ?thesis using False m 1 l1 by (simp add: Let_def)
  qed
qed

lemma extract_notes_pitched:
  "\<forall>n\<in>set (extract_notes_from_staff staff). type_tag n \<noteq> Type_rest \<longrightarrow> midi_note n \<noteq> None"
  by (induction staff rule: extract_notes_from_staff.induct) (auto split: list.splits)

lemma beats_nonneg: "0 \<le> d \<Longrightarrow> 0 \<le> beats d"
  by (simp add: beats_eq)

lemma extract_notes_nonneg:
  "\<forall>c\<in>set staff. 0 \<le> written_duration c
   \<Longrightarrow> \<forall>n\<in>set (extract_notes_from_staff staff). 0 \<le> duration_beats n"
  by (induction staff rule: extract_notes_from_staff.induct)
     (auto simp: beats_nonneg split: list.splits)

lemma staff_synthesis_never_fails:
  assumes "0 < tempo" "\<forall>c\<in>set staff. 0 \<le> written_duration c"
    and "notes_data = extract_notes_from_staff staff"
    and "total_duration = sum_list (map duration_beats notes_data)"
  shows "\<exists>cf ps audio g'.
           staff_audio_data notes_data tempo total_duration instrument g = Inr (cf, ps, audio, g')"
proof -
  let ?bps = "real_of_int tempo / 60"
  let ?tf = "py_int (total_duration / ?bps * real_of_int sample_rate)"
  have bps: "0 < ?bps" using assms(1) by simp
  have d: "\<forall>n\<in>set notes_data. 0 \<le> duration_beats n"
    unfolding assms(3) by (rule extract_notes_nonneg [OF assms(2)])
  then have "0 \<le> total_duration" unfolding assms(4) by (intro sum_list_nonneg) auto
  then have "0 \<le> total_duration / ?bps * real_of_int sample_rate"
    using assms(1) by (simp add: sample_rate_def)
  then have tf: "0 \<le> ?tf" by (rule py_int_nonneg)
  have p: "\<forall>n\<in>set notes_data. type_tag n \<noteq> Type_rest \<longrightarrow> midi_note n \<noteq> None"
    unfolding assms(3) by (rule extract_notes_pitched)
  have "\<exists>cf' ps' a' g'.
           staff_notes_loop instrument ?bps ?tf notes_data (0, None, replicate (nat ?tf) 0, g)
             = Inr (cf', ps', a', g')
         \<and> length a' = length (replicate (nat ?tf) (0::real))"
    by (rule staff_notes_loop_ok [OF bps d p]) simp_all
  then show ?thesis
    using tf assms(1) by (auto simp: staff_audio_data_def Let_def np_zeros_def)
qed

end
